theory Spec2Isabelle
  imports Complex_Main "HOL-Library.AList" "HOL-Library.Sublist"
begin

section \<open>Python values, exceptions and the outside world\<close>

text \<open>
  The two programs (\<^verbatim>\<open>simple_agent.py\<close> and \<^verbatim>\<open>advanced_agent.py\<close>) build
  dictionaries and lists, send them over HTTP and read decoded JSON back. A Python value of
  that kind is a \<open>json\<close>: a dictionary is an association list in insertion order
  (\<open>JObject\<close>), \<^verbatim>\<open>None\<close> is \<open>JNull\<close>. Strings are lists of characters.
\<close>

datatype json =
    JNull
  | JBool bool
  | JInt int
  | JFloat real
  | JString string
  | JArray "json list"
  | JObject "(string \<times> json) list"

text \<open>
  An exception is its class and the text \<^verbatim>\<open>str(e)\<close>. Only subclasses of
  \<^verbatim>\<open>Exception\<close> are modelled: \<open>RequestException\<close> stands for
  \<^verbatim>\<open>requests.RequestException\<close> and its transport subclasses (connection errors,
  timeouts), \<open>HTTPError\<close> is the subclass that \<^verbatim>\<open>raise_for_status\<close> raises.
  Asynchronous interrupts of the process are not part of the model.
\<close>

datatype exc_class =
    Exception
  | RequestException
  | HTTPError
  | JSONDecodeError
  | ValueError
  | KeyError
  | IndexError
  | TypeError
  | AttributeError
  | RecursionError

datatype py_exception = Raise exc_class string

fun exc_str :: "py_exception \<Rightarrow> string" where
  "exc_str (Raise c msg) = msg"

text \<open>The three \<^verbatim>\<open>except\<close> clauses of the sources, as class tests.\<close>

fun isinstance_Exception :: "py_exception \<Rightarrow> bool" where
  "isinstance_Exception (Raise c msg) = True"

fun isinstance_RequestException :: "py_exception \<Rightarrow> bool" where
  "isinstance_RequestException (Raise c msg) = (c = RequestException \<or> c = HTTPError)"

fun isinstance_JSONDecodeError :: "py_exception \<Rightarrow> bool" where
  "isinstance_JSONDecodeError (Raise c msg) = (c = JSONDecodeError)"

text \<open>
  \<^verbatim>\<open>try: body  except C as e: handler(e)\<close> on a computation that either raises
  (\<open>Inl\<close>) or returns (\<open>Inr\<close>): an exception outside the class propagates.
\<close>

definition try_except ::
  "(py_exception \<Rightarrow> bool) \<Rightarrow> py_exception + 'a \<Rightarrow> (py_exception \<Rightarrow> py_exception + 'a)
    \<Rightarrow> py_exception + 'a" where
  "try_except catches body handler =
     (case body of
        Inl e \<Rightarrow> if catches e then handler e else Inl e
      | Inr v \<Rightarrow> Inr v)"

text \<open>
  An HTTP call either raises or returns a response. Of a response the code reads the
  status code, \<^verbatim>\<open>raise_for_status()\<close> (whose \<^verbatim>\<open>HTTPError\<close> text is
  \<open>http_error\<close>) and \<^verbatim>\<open>json()\<close>, which returns the decoded body or raises.
\<close>

record 'b http_response =
  status_code :: nat
  http_error :: string
  json_result :: "py_exception + 'b"

datatype 'b http_outcome =
    Raised py_exception
  | Response "'b http_response"

definition raise_for_status :: "'b http_response \<Rightarrow> py_exception + unit" where
  "raise_for_status response =
     (if 400 \<le> status_code response \<and> status_code response < 600
      then Inl (Raise HTTPError (http_error response))
      else Inr ())"

text \<open>
  The decoded body of a chat completion, as far as the code reads it: the expression
  \<^verbatim>\<open>body["choices"][0]["message"]["content"]\<close> either yields the content or
  raises while subscripting. The content of an ordinary completion is a text, but nothing
  in the code checks that: it can be any value, \<^verbatim>\<open>None\<close> for a body whose content
  is \<^verbatim>\<open>null\<close>.
\<close>

datatype completion_json =
    Content json
  | Malformed py_exception

fun choices0_message_content :: "completion_json \<Rightarrow> py_exception + json" where
  "choices0_message_content (Content v) = Inr v"
| "choices0_message_content (Malformed e) = Inl e"

text \<open>
  Every call that leaves the process is logged in a trace, and the answer of the outside
  world is a function of the trace so far and of the request, so that the endpoint and the
  gateway may answer differently each time. \<open>json_loads\<close> is \<^verbatim>\<open>json.loads\<close> of
  the standard library, \<open>py_repr\<close> is \<^verbatim>\<open>str()\<close> of a value that is not a string,
  \<open>datetime_now\<close> is \<^verbatim>\<open>datetime.now().isoformat()\<close>.
\<close>

datatype event =
    ChatPost string json
  | GatewayPost string json
  | GatewayGet string
  | ClockRead

record env =
  post_chat :: "event list \<Rightarrow> string \<Rightarrow> json \<Rightarrow> completion_json http_outcome"
  post_tool :: "event list \<Rightarrow> string \<Rightarrow> json \<Rightarrow> json http_outcome"
  get_tools :: "event list \<Rightarrow> string \<Rightarrow> json http_outcome"
  json_loads :: "string \<Rightarrow> py_exception + json"
  py_repr :: "json \<Rightarrow> string"
  datetime_now :: "event list \<Rightarrow> string"

text \<open>
  A chat message \<^verbatim>\<open>{"role": role, "content": content}\<close>, with any value as
  content (\<open>message_of\<close>) and with a text as content (\<open>message\<close>).
\<close>

definition message_of :: "string \<Rightarrow> json \<Rightarrow> json" where
  "message_of role content = JObject [(''role'', JString role), (''content'', content)]"

definition message :: "string \<Rightarrow> string \<Rightarrow> json" where
  "message role content = message_of role (JString content)"

text \<open>
  The name of the type of a value, as it stands in the text of an
  \<^verbatim>\<open>AttributeError\<close> or \<^verbatim>\<open>TypeError\<close>.
\<close>

fun type_name :: "json \<Rightarrow> string" where
  "type_name JNull = ''NoneType''"
| "type_name (JBool b) = ''bool''"
| "type_name (JInt i) = ''int''"
| "type_name (JFloat x) = ''float''"
| "type_name (JString s) = ''str''"
| "type_name (JArray xs) = ''list''"
| "type_name (JObject d) = ''dict''"

definition no_attribute :: "json \<Rightarrow> string \<Rightarrow> py_exception" where
  "no_attribute v name =
     Raise AttributeError
       ([CHR 0x27] @ type_name v @ [CHR 0x27] @ '' object has no attribute ''
          @ [CHR 0x27] @ name @ [CHR 0x27])"

section \<open>\<^verbatim>\<open>simple_agent.py\<close>\<close>

record AgentConfig =
  model_url :: string
  model_name :: string
  max_tokens :: int
  temperature :: real
  reasoning_level :: string

definition AgentConfig_default :: AgentConfig where
  "AgentConfig_default =
     \<lparr>model_url = ''http://localhost:12434/engines/llama.cpp/v1'',
      model_name = ''ai/gpt-oss'',
      max_tokens = 1000,
      temperature = 7 / 10,
      reasoning_level = ''medium''\<rparr>"

record GPTOSSAgent =
  config :: AgentConfig
  conversation_history :: "json list"

definition GPTOSSAgent_init :: "AgentConfig option \<Rightarrow> GPTOSSAgent" where
  "GPTOSSAgent_init cfg =
     \<lparr>config = (case cfg of None \<Rightarrow> AgentConfig_default | Some c \<Rightarrow> c),
      conversation_history = []\<rparr>"

text \<open>
  \<^verbatim>\<open>_make_request\<close>: the POST, \<^verbatim>\<open>raise_for_status\<close> and \<^verbatim>\<open>json()\<close>
  run inside \<^verbatim>\<open>try\<close>; a \<^verbatim>\<open>RequestException\<close> is replaced by a plain
  \<^verbatim>\<open>Exception\<close> with a message and raised again.
\<close>

definition request_payload :: "GPTOSSAgent \<Rightarrow> json list \<Rightarrow> json" where
  "request_payload self messages =
     JObject
       [(''model'', JString (model_name (config self))),
        (''messages'', JArray messages),
        (''max_tokens'', JInt (max_tokens (config self))),
        (''temperature'', JFloat (temperature (config self))),
        (''stream'', JBool False)]"

definition request_url :: "GPTOSSAgent \<Rightarrow> string" where
  "request_url self = model_url (config self) @ ''/chat/completions''"

definition make_request ::
  "env \<Rightarrow> GPTOSSAgent \<Rightarrow> json list \<Rightarrow> event list
    \<Rightarrow> (py_exception + completion_json) \<times> event list" where
  "make_request env self messages tr =
     (let payload = request_payload self messages
      in (try_except isinstance_RequestException
            (case post_chat env tr (request_url self) payload of
               Raised e \<Rightarrow> Inl e
             | Response response \<Rightarrow>
                 (case raise_for_status response of
                    Inl e \<Rightarrow> Inl e
                  | Inr u \<Rightarrow> json_result response))
            (\<lambda>e. Inl (Raise Exception (''Error communicating with model: '' @ exc_str e))),
          tr @ [ChatPost (request_url self) payload]))"

text \<open>
  \<^verbatim>\<open>chat\<close> returns the raised exception or the assistant's response, with the agent as
  the call leaves it. An exception leaves the history as it was: both appends come after
  the request and the subscripting. \<open>chat_messages\<close> is the list \<^verbatim>\<open>messages\<close>
  the method builds, \<open>keep_manageable\<close> its last statement before \<^verbatim>\<open>return\<close>.
\<close>

definition chat_messages :: "GPTOSSAgent \<Rightarrow> string \<Rightarrow> string option \<Rightarrow> json list" where
  "chat_messages self user_input system_prompt =
     [case system_prompt of
        Some sp \<Rightarrow>
          if sp \<noteq> []
          then message ''system''
                 (sp @ [CHR 0x0A] @ ''Reasoning: '' @ reasoning_level (config self))
          else message ''system''
                 (''You are a helpful AI assistant. Reasoning: ''
                    @ reasoning_level (config self))
      | None \<Rightarrow>
          message ''system''
            (''You are a helpful AI assistant. Reasoning: ''
               @ reasoning_level (config self))]
       @ conversation_history self
       @ [message ''user'' user_input]"

definition keep_manageable :: "json list \<Rightarrow> json list" where
  "keep_manageable history =
     (if length history > 10 then drop (length history - 10) history else history)"

definition chat ::
  "env \<Rightarrow> GPTOSSAgent \<Rightarrow> string \<Rightarrow> string option \<Rightarrow> event list
    \<Rightarrow> (py_exception + json) \<times> GPTOSSAgent \<times> event list" where
  "chat env self user_input system_prompt tr =
     (case make_request env self (chat_messages self user_input system_prompt) tr of
        (Inl e, tr1) \<Rightarrow> (Inl e, self, tr1)
      | (Inr body, tr1) \<Rightarrow>
          (case choices0_message_content body of
             Inl e \<Rightarrow> (Inl e, self, tr1)
           | Inr assistant_response \<Rightarrow>
               (Inr assistant_response,
                self\<lparr>conversation_history :=
                       keep_manageable
                         (conversation_history self
                            @ [message ''user'' user_input]
                            @ [message_of ''assistant'' assistant_response])\<rparr>,
                tr1)))"

definition think_system_prompt :: string where
  "think_system_prompt =
     ''You are an expert problem solver. Break down complex tasks into steps, ''
       @ [CHR 0x0A]
       @ ''        analyze each component carefully, and provide detailed reasoning for your approach.''"

text \<open>
  \<^verbatim>\<open>think\<close>: the \<^verbatim>\<open>finally\<close> clause runs on both exits of \<^verbatim>\<open>chat\<close>, so the
  level is written back whatever the first component of the result is.
\<close>

definition think ::
  "env \<Rightarrow> GPTOSSAgent \<Rightarrow> string \<Rightarrow> string \<Rightarrow> event list
    \<Rightarrow> (py_exception + json) \<times> GPTOSSAgent \<times> event list" where
  "think env self task level tr =
     (let original_level = reasoning_level (config self);
          self1 = self\<lparr>config := (config self)\<lparr>reasoning_level := level\<rparr>\<rparr>;
          (result, self2, tr1) = chat env self1 task (Some think_system_prompt) tr
      in (result,
          self2\<lparr>config := (config self2)\<lparr>reasoning_level := original_level\<rparr>\<rparr>,
          tr1))"

definition reset_conversation :: "GPTOSSAgent \<Rightarrow> GPTOSSAgent" where
  "reset_conversation self = self\<lparr>conversation_history := []\<rparr>"

text \<open>
  The states an agent can be in: it is constructed, and then \<^verbatim>\<open>chat\<close>,
  \<^verbatim>\<open>think\<close> and \<^verbatim>\<open>reset_conversation\<close> are called on it in any order with
  any arguments; a call that raises leaves the agent in use, as the command loop of
  \<^verbatim>\<open>main\<close> does.
\<close>

inductive agent_run :: "env \<Rightarrow> GPTOSSAgent \<times> event list \<Rightarrow> bool" for env :: env where
  constructed: "agent_run env (GPTOSSAgent_init cfg, tr)"
| chat_turn:
    "agent_run env (self, tr) \<Longrightarrow> chat env self user_input system_prompt tr = (r, self', tr')
      \<Longrightarrow> agent_run env (self', tr')"
| think_turn:
    "agent_run env (self, tr) \<Longrightarrow> think env self task level tr = (r, self', tr')
      \<Longrightarrow> agent_run env (self', tr')"
| reset_turn:
    "agent_run env (self, tr) \<Longrightarrow> agent_run env (reset_conversation self, tr)"

section \<open>\<^verbatim>\<open>advanced_agent.py\<close>\<close>

subsection \<open>Strings\<close>

text \<open>
  \<^verbatim>\<open>str.strip()\<close> removes the characters for which \<^verbatim>\<open>str.isspace()\<close> holds
  from both ends; a \<open>char\<close> is a code point below 256, and these are the twelve
  such code points. \<open>py_in sub s\<close> is \<^verbatim>\<open>sub in s\<close>.
\<close>

definition py_isspace :: "char \<Rightarrow> bool" where
  "py_isspace c = (c \<in> set [CHR 0x09, CHR 0x0A, CHR 0x0B, CHR 0x0C, CHR 0x0D, CHR 0x1C,
                            CHR 0x1D, CHR 0x1E, CHR 0x1F, CHR 0x20, CHR 0x85, CHR 0xA0])"

definition strip :: "string \<Rightarrow> string" where
  "strip s = rev (dropWhile py_isspace (rev (dropWhile py_isspace s)))"

definition startswith :: "string \<Rightarrow> string \<Rightarrow> bool" where
  "startswith s p = prefix p s"

fun py_in :: "string \<Rightarrow> string \<Rightarrow> bool" where
  "py_in sub [] = (sub = [])"
| "py_in sub (c # cs) = (prefix sub (c # cs) \<or> py_in sub cs)"

fun join :: "string \<Rightarrow> string list \<Rightarrow> string" where
  "join sep [] = []"
| "join sep [x] = x"
| "join sep (x # y # ys) = x @ sep @ join sep (y # ys)"

text \<open>\<^verbatim>\<open>str(i)\<close> of a natural number: its decimal digits.\<close>

definition digit_char :: "nat \<Rightarrow> char" where
  "digit_char d = ''0123456789'' ! d"

fun str_nat :: "nat \<Rightarrow> string" where
  "str_nat n = (if n < 10 then [digit_char n] else str_nat (n div 10) @ [digit_char (n mod 10)])"

declare str_nat.simps [simp del]

subsection \<open>Dictionaries\<close>

text \<open>
  \<^verbatim>\<open>d.get(key, default)\<close> and \<^verbatim>\<open>len(v)\<close>; \<^verbatim>\<open>d[key] = v\<close> on a dictionary
  in insertion order is \<open>AList.update\<close>: an existing key keeps its place, a new key goes
  to the end. \<open>py_format\<close> is how an f-string prints a value.
\<close>

definition dict_get :: "(string \<times> json) list \<Rightarrow> string \<Rightarrow> json \<Rightarrow> json" where
  "dict_get d key dflt = (case map_of d key of None \<Rightarrow> dflt | Some v \<Rightarrow> v)"

fun py_len :: "json \<Rightarrow> py_exception + nat" where
  "py_len (JString s) = Inr (length s)"
| "py_len (JArray xs) = Inr (length xs)"
| "py_len (JObject d) = Inr (length d)"
| "py_len v = Inl (Raise TypeError ''object has no len()'')"

definition py_format :: "env \<Rightarrow> json \<Rightarrow> string" where
  "py_format env v = (case v of JString s \<Rightarrow> s | _ \<Rightarrow> py_repr env v)"

text \<open>\<^verbatim>\<open>try\<close>/\<^verbatim>\<open>except\<close> around a computation that also changes the state.\<close>

definition try_except_st ::
  "(py_exception \<Rightarrow> bool) \<Rightarrow> (py_exception + 'a) \<times> 's
    \<Rightarrow> (py_exception \<Rightarrow> 's \<Rightarrow> (py_exception + 'a) \<times> 's) \<Rightarrow> (py_exception + 'a) \<times> 's" where
  "try_except_st catches body handler =
     (case body of
        (Inl e, s) \<Rightarrow> if catches e then handler e s else (Inl e, s)
      | (Inr v, s) \<Rightarrow> (Inr v, s))"

subsection \<open>Configuration, tool manager, agents\<close>

text \<open>
  The configuration of \<^verbatim>\<open>advanced_agent.py\<close> has the fields of the simple one and
  the gateway URL. The fields \<open>config'\<close> and \<open>conversation_history'\<close> are
  \<^verbatim>\<open>config\<close> and \<^verbatim>\<open>conversation_history\<close> of this file's classes.
\<close>

record AgentConfig_mcp = AgentConfig +
  mcp_gateway_url :: string

definition AgentConfig_mcp_default :: AgentConfig_mcp where
  "AgentConfig_mcp_default =
     \<lparr>model_url = ''http://localhost:12434/engines/llama.cpp/v1'',
      model_name = ''ai/gpt-oss-20b'',
      max_tokens = 2000,
      temperature = 7 / 10,
      reasoning_level = ''medium'',
      mcp_gateway_url = ''http://localhost:3000''\<rparr>"

record MCPToolManager =
  gateway_url :: string
  available_tools :: json

record CrewAgent =
  role :: string
  goal :: string
  backstory :: string
  tools :: "string list"
  conversation_history' :: "json list"

record MultiAgentSystem =
  config' :: AgentConfig_mcp
  mcp_manager :: MCPToolManager
  agents :: "string \<rightharpoonup> nat"
  task_results :: "json list"

text \<open>
  A \<^verbatim>\<open>CrewAgent\<close> is an object that the \<^verbatim>\<open>agents\<close> dictionary refers to: the
  dictionary holds its address and the heap holds the object, so that one agent added
  under two names is one history. The state of a run is the system, the heap and the
  trace of outside calls.
\<close>

record machine =
  crew :: MultiAgentSystem
  heap :: "nat \<Rightarrow> CrewAgent"
  trace :: "event list"

record step =
  step_agent :: string
  step_task :: string

definition discover_tools ::
  "env \<Rightarrow> MCPToolManager \<Rightarrow> event list \<Rightarrow> (py_exception + unit) \<times> MCPToolManager \<times> event list" where
  "discover_tools env mgr tr =
     (let url = gateway_url mgr @ ''/tools'';
          tr1 = tr @ [GatewayGet url]
      in try_except_st isinstance_Exception
           (case get_tools env tr url of
              Raised e \<Rightarrow> (Inl e, mgr, tr1)
            | Response response \<Rightarrow>
                if status_code response = 200
                then (case json_result response of
                        Inl e \<Rightarrow> (Inl e, mgr, tr1)
                      | Inr found \<Rightarrow>
                          (case py_len found of
                             Inl e \<Rightarrow> (Inl e, mgr\<lparr>available_tools := found\<rparr>, tr1)
                           | Inr n \<Rightarrow> (Inr (), mgr\<lparr>available_tools := found\<rparr>, tr1)))
                else (Inr (), mgr, tr1))
           (\<lambda>e s. (Inr (), s)))"

definition MCPToolManager_init ::
  "env \<Rightarrow> string \<Rightarrow> event list \<Rightarrow> (py_exception + MCPToolManager) \<times> event list" where
  "MCPToolManager_init env url tr =
     (case discover_tools env \<lparr>gateway_url = url, available_tools = JObject []\<rparr> tr of
        (Inl e, mgr, tr1) \<Rightarrow> (Inl e, tr1)
      | (Inr u, mgr, tr1) \<Rightarrow> (Inr mgr, tr1))"

definition MultiAgentSystem_init ::
  "env \<Rightarrow> AgentConfig_mcp option \<Rightarrow> event list \<Rightarrow> (py_exception + MultiAgentSystem) \<times> event list" where
  "MultiAgentSystem_init env cfg tr =
     (let c = (case cfg of None \<Rightarrow> AgentConfig_mcp_default | Some c \<Rightarrow> c)
      in case MCPToolManager_init env (mcp_gateway_url c) tr of
           (Inl e, tr1) \<Rightarrow> (Inl e, tr1)
         | (Inr mgr, tr1) \<Rightarrow>
             (Inr \<lparr>config' = c, mcp_manager = mgr, agents = Map.empty, task_results = []\<rparr>, tr1))"

definition CrewAgent_init :: "string \<Rightarrow> string \<Rightarrow> string \<Rightarrow> string list option \<Rightarrow> CrewAgent" where
  "CrewAgent_init r g b ts =
     \<lparr>role = r, goal = g, backstory = b,
      tools = (case ts of None \<Rightarrow> [] | Some t \<Rightarrow> t),
      conversation_history' = []\<rparr>"

definition add_agent :: "string \<Rightarrow> nat \<Rightarrow> machine \<Rightarrow> machine" where
  "add_agent name a m = m\<lparr>crew := (crew m)\<lparr>agents := (agents (crew m))(name \<mapsto> a)\<rparr>\<rparr>"

definition get_system_prompt :: "CrewAgent \<Rightarrow> string" where
  "get_system_prompt self =
     (let tools_desc =
            (if tools self \<noteq> [] then ''Available tools: '' @ join '', '' (tools self)
             else ''No tools available'')
      in ''You are a '' @ role self @ ''.'' @ [CHR 0x0A, CHR 0x0A]
           @ ''Goal: '' @ goal self @ [CHR 0x0A, CHR 0x0A]
           @ ''Backstory: '' @ backstory self @ [CHR 0x0A, CHR 0x0A]
           @ tools_desc @ [CHR 0x0A, CHR 0x0A]
           @ ''When using tools, respond with JSON in this format:'' @ [CHR 0x0A]
           @ ''{'' @ [CHR 0x22] @ ''action'' @ [CHR 0x22] @ '': '' @ [CHR 0x22] @ ''use_tool''
           @ [CHR 0x22] @ '', '' @ [CHR 0x22] @ ''tool'' @ [CHR 0x22] @ '': '' @ [CHR 0x22]
           @ ''tool_name'' @ [CHR 0x22] @ '', '' @ [CHR 0x22] @ ''parameters'' @ [CHR 0x22]
           @ '': {'' @ [CHR 0x22] @ ''param'' @ [CHR 0x22] @ '': '' @ [CHR 0x22] @ ''value''
           @ [CHR 0x22] @ ''}}'' @ [CHR 0x0A, CHR 0x0A]
           @ ''Otherwise, respond normally to help achieve your goal.'')"

subsection \<open>Completion and tool calls\<close>

text \<open>
  \<^verbatim>\<open>_make_llm_request\<close> and \<^verbatim>\<open>call_tool\<close> keep their whole body inside
  \<^verbatim>\<open>try\<close> with \<^verbatim>\<open>except Exception\<close>, whose handler returns a text or a
  dictionary. The \<^verbatim>\<open>agent_name\<close> argument of the first is not used by the code.
  What \<^verbatim>\<open>_make_llm_request\<close> returns is the content of the completion, whatever
  value it is, or the error text.
\<close>

definition llm_payload :: "machine \<Rightarrow> json list \<Rightarrow> json" where
  "llm_payload m messages =
     JObject
       [(''model'', JString (model_name (config' (crew m)))),
        (''messages'', JArray messages),
        (''max_tokens'', JInt (max_tokens (config' (crew m)))),
        (''temperature'', JFloat (temperature (config' (crew m))))]"

definition llm_url :: "machine \<Rightarrow> string" where
  "llm_url m = model_url (config' (crew m)) @ ''/chat/completions''"

definition make_llm_request ::
  "env \<Rightarrow> json list \<Rightarrow> machine \<Rightarrow> (py_exception + json) \<times> machine" where
  "make_llm_request env messages m =
     (let payload = llm_payload m messages
      in (try_except isinstance_Exception
            (case post_chat env (trace m) (llm_url m) payload of
               Raised e \<Rightarrow> Inl e
             | Response response \<Rightarrow>
                 (case raise_for_status response of
                    Inl e \<Rightarrow> Inl e
                  | Inr u \<Rightarrow>
                      (case json_result response of
                         Inl e \<Rightarrow> Inl e
                       | Inr body \<Rightarrow> choices0_message_content body)))
            (\<lambda>e. Inr (JString (''Error: '' @ exc_str e))),
          m\<lparr>trace := trace m @ [ChatPost (llm_url m) payload]\<rparr>))"

definition tool_payload :: "json \<Rightarrow> json \<Rightarrow> json" where
  "tool_payload tool_name parameters =
     JObject [(''tool'', tool_name), (''parameters'', parameters)]"

definition tool_url :: "machine \<Rightarrow> string" where
  "tool_url m = gateway_url (mcp_manager (crew m)) @ ''/call''"

definition call_tool ::
  "env \<Rightarrow> json \<Rightarrow> json \<Rightarrow> machine \<Rightarrow> (py_exception + json) \<times> machine" where
  "call_tool env tool_name parameters m =
     (let payload = tool_payload tool_name parameters
      in (try_except isinstance_Exception
            (case post_tool env (trace m) (tool_url m) payload of
               Raised e \<Rightarrow> Inl e
             | Response response \<Rightarrow> json_result response)
            (\<lambda>e. Inr (JObject [(''error'', JString (''Tool call failed: '' @ exc_str e))])),
          m\<lparr>trace := trace m @ [GatewayPost (tool_url m) payload]\<rparr>))"

text \<open>
  The \<^verbatim>\<open>try\<close> block of \<^verbatim>\<open>execute_agent_task\<close> (the check whether the agent
  wants a tool): \<open>tool_call_body\<close> is the block, which may raise, and
  \<open>resolve_tool_call\<close> adds \<^verbatim>\<open>except json.JSONDecodeError: pass\<close>, after which the
  response is the one the block was entered with. \<^verbatim>\<open>response.strip()\<close> on a
  response that is not a text, and \<^verbatim>\<open>.get\<close> on a decoded value that is not a
  dictionary, raise \<^verbatim>\<open>AttributeError\<close>. \<open>tool_followup\<close> is the two messages
  the block appends before it asks for the final response.
\<close>

definition tool_followup :: "env \<Rightarrow> string \<Rightarrow> json \<Rightarrow> json \<Rightarrow> json list" where
  "tool_followup env response tool_name tool_result =
     (let tool_context = ''Tool '' @ py_format env tool_name
            @ '' returned: '' @ py_format env tool_result
      in [message ''assistant'' response,
          message ''user''
            (''Tool result: '' @ tool_context @ ''. Please provide your final response.'')])"

definition tool_call_body ::
  "env \<Rightarrow> json list \<Rightarrow> json \<Rightarrow> machine \<Rightarrow> (py_exception + json) \<times> machine" where
  "tool_call_body env messages response m =
     (case response of
        JString text \<Rightarrow>
          if startswith (strip text) ''{'' \<and> py_in ''action'' text
          then (case json_loads env text of
                  Inl e \<Rightarrow> (Inl e, m)
                | Inr (JObject action_data) \<Rightarrow>
                    if dict_get action_data ''action'' JNull = JString ''use_tool''
                    then (let tool_name = dict_get action_data ''tool'' JNull;
                              parameters = dict_get action_data ''parameters'' (JObject [])
                          in case call_tool env tool_name parameters m of
                               (Inl e, m1) \<Rightarrow> (Inl e, m1)
                             | (Inr tool_result, m1) \<Rightarrow>
                                 make_llm_request env
                                   (messages @ tool_followup env text tool_name tool_result) m1)
                    else (Inr response, m)
                | Inr other \<Rightarrow> (Inl (no_attribute other ''get''), m))
          else (Inr response, m)
      | other \<Rightarrow> (Inl (no_attribute other ''strip''), m))"

definition resolve_tool_call ::
  "env \<Rightarrow> json list \<Rightarrow> json \<Rightarrow> machine \<Rightarrow> (py_exception + json) \<times> machine" where
  "resolve_tool_call env messages response m =
     try_except_st isinstance_JSONDecodeError
       (tool_call_body env messages response m)
       (\<lambda>e m1. (Inr response, m1))"

definition task_prompt_of :: "string \<Rightarrow> string \<Rightarrow> string" where
  "task_prompt_of task context =
     ''Task: '' @ task
       @ (if context \<noteq> []
          then [CHR 0x0A, CHR 0x0A] @ ''Context from previous agents: '' @ context
          else [])"

definition task_messages :: "CrewAgent \<Rightarrow> string \<Rightarrow> string \<Rightarrow> json list" where
  "task_messages agent task context =
     [message ''system'' (get_system_prompt agent)]
       @ drop (length (conversation_history' agent) - 6) (conversation_history' agent)
       @ [message ''user'' (task_prompt_of task context)]"

text \<open>
  The two \<^verbatim>\<open>append\<close> calls on the history of the agent object at address \<open>a\<close>.
\<close>

definition append_history :: "nat \<Rightarrow> json list \<Rightarrow> machine \<Rightarrow> machine" where
  "append_history a entries m =
     m\<lparr>heap := (heap m)
          (a := (heap m a)
             \<lparr>conversation_history' := conversation_history' (heap m a) @ entries\<rparr>)\<rparr>"

definition execute_agent_task ::
  "env \<Rightarrow> string \<Rightarrow> string \<Rightarrow> string \<Rightarrow> machine \<Rightarrow> (py_exception + json) \<times> machine" where
  "execute_agent_task env agent_name task context m =
     (case agents (crew m) agent_name of
        None \<Rightarrow> (Inr (JString (''Agent '' @ agent_name @ '' not found'')), m)
      | Some a \<Rightarrow>
          (let messages = task_messages (heap m a) task context
           in case make_llm_request env messages m of
                (Inl e, m1) \<Rightarrow> (Inl e, m1)
              | (Inr response, m1) \<Rightarrow>
                  (case resolve_tool_call env messages response m1 of
                     (Inl e, m2) \<Rightarrow> (Inl e, m2)
                   | (Inr final, m2) \<Rightarrow>
                       (Inr final,
                        append_history a
                          [message ''user'' (task_prompt_of task context),
                           message_of ''assistant'' final] m2))))"

subsection \<open>The workflow\<close>

definition step_key :: "nat \<Rightarrow> string \<Rightarrow> string" where
  "step_key i agent_name = ''step_'' @ str_nat i @ ''_'' @ agent_name"

definition step_result :: "string \<Rightarrow> json \<Rightarrow> string \<Rightarrow> json" where
  "step_result task result timestamp =
     JObject [(''task'', JString task), (''result'', result),
              (''timestamp'', JString timestamp)]"

definition context_line :: "string \<Rightarrow> string \<Rightarrow> string" where
  "context_line agent_name result =
     [CHR 0x0A] @ agent_name @ '' completed: '' @ result @ [CHR 0x0A]"

text \<open>
  The \<^verbatim>\<open>print\<close> after a step evaluates \<^verbatim>\<open>result[:200]\<close> and
  \<^verbatim>\<open>len(result)\<close>: a text and a list can be sliced, any other value raises (for a
  dictionary the exception is a \<^verbatim>\<open>TypeError\<close> up to Python 3.11 and a
  \<^verbatim>\<open>KeyError\<close> from 3.12 on). What is printed is not modelled.
\<close>

fun result_preview :: "json \<Rightarrow> py_exception + unit" where
  "result_preview (JString s) = Inr ()"
| "result_preview (JArray xs) = Inr ()"
| "result_preview (JObject d) =
     Inl (Raise TypeError (''unhashable type: '' @ [CHR 0x27] @ ''slice'' @ [CHR 0x27]))"
| "result_preview v =
     Inl (Raise TypeError
            ([CHR 0x27] @ type_name v @ [CHR 0x27] @ '' object is not subscriptable''))"

text \<open>
  The \<^verbatim>\<open>for\<close> loop of \<^verbatim>\<open>execute_crew_workflow\<close> from step number \<open>i\<close> on, with
  its two local variables \<^verbatim>\<open>results\<close> and \<^verbatim>\<open>context\<close>. Nothing in the loop
  catches an exception: one that \<^verbatim>\<open>execute_agent_task\<close> or the \<^verbatim>\<open>print\<close>
  raises ends the workflow.
\<close>

fun crew_loop ::
  "env \<Rightarrow> nat \<Rightarrow> step list \<Rightarrow> (string \<times> json) list \<Rightarrow> string \<Rightarrow> machine
    \<Rightarrow> (py_exception + (string \<times> json) list \<times> string) \<times> machine" where
  "crew_loop env i [] results context m = (Inr (results, context), m)"
| "crew_loop env i (s # steps) results context m =
     (case execute_agent_task env (step_agent s) (step_task s) context m of
        (Inl e, m1) \<Rightarrow> (Inl e, m1)
      | (Inr result, m1) \<Rightarrow>
          (case result_preview result of
             Inl e \<Rightarrow> (Inl e, m1\<lparr>trace := trace m1 @ [ClockRead]\<rparr>)
           | Inr u \<Rightarrow>
               crew_loop env (Suc i) steps
                 (AList.update (step_key i (step_agent s))
                    (step_result (step_task s) result (datetime_now env (trace m1))) results)
                 (context @ context_line (step_agent s) (py_format env result))
                 (m1\<lparr>trace := trace m1 @ [ClockRead]\<rparr>)))"

definition step_dict :: "step \<Rightarrow> json" where
  "step_dict s = JObject [(''agent'', JString (step_agent s)), (''task'', JString (step_task s))]"

definition execute_crew_workflow ::
  "env \<Rightarrow> step list \<Rightarrow> machine \<Rightarrow> (py_exception + (string \<times> json) list) \<times> machine" where
  "execute_crew_workflow env workflow m =
     (case crew_loop env 1 workflow [] [] m of
        (Inl e, m1) \<Rightarrow> (Inl e, m1)
      | (Inr (results, context), m1) \<Rightarrow>
          (Inr results,
           m1\<lparr>crew := (crew m1)
                \<lparr>task_results := task_results (crew m1)
                   @ [JObject [(''workflow'', JArray (map step_dict workflow)),
                               (''results'', JObject results),
                               (''timestamp'', JString (datetime_now env (trace m1)))]]\<rparr>,
              trace := trace m1 @ [ClockRead]\<rparr>))"

text \<open>
  The loop's variables after the first \<open>i\<close> steps of a workflow; lemma
  \<open>crew_loop_resume\<close> below shows that the whole loop goes through this state.
\<close>

definition workflow_state ::
  "env \<Rightarrow> step list \<Rightarrow> machine \<Rightarrow> nat
    \<Rightarrow> (py_exception + (string \<times> json) list \<times> string) \<times> machine" where
  "workflow_state env workflow m i = crew_loop env 1 (take i workflow) [] [] m"

section \<open>Notions used in the statements\<close>

text \<open>
  A completion content on which a task does not raise: it is a text, and if the text passes
  the check before \<^verbatim>\<open>json.loads\<close>, then \<^verbatim>\<open>json.loads\<close> either raises
  \<^verbatim>\<open>JSONDecodeError\<close> on it or returns a dictionary. \<open>replies_plain\<close> says that
  every content the endpoint sends is of that kind.
\<close>

definition plain_text :: "env \<Rightarrow> json \<Rightarrow> bool" where
  "plain_text env v =
     (\<exists>text. v = JString text \<and>
        (startswith (strip text) ''{'' \<and> py_in ''action'' text \<longrightarrow>
           (case json_loads env text of
              Inl e \<Rightarrow> isinstance_JSONDecodeError e
            | Inr u \<Rightarrow> (\<exists>d. u = JObject d))))"

definition replies_plain :: "env \<Rightarrow> bool" where
  "replies_plain env =
     (\<forall>tr url payload response body v.
        post_chat env tr url payload = Response response \<longrightarrow>
        json_result response = Inr body \<longrightarrow>
        choices0_message_content body = Inr v \<longrightarrow> plain_text env v)"

text \<open>The outcomes of tool discovery that count as a failure.\<close>

fun discovery_failed :: "json http_outcome \<Rightarrow> bool" where
  "discovery_failed (Raised e) = True"
| "discovery_failed (Response response) =
     (\<not> (200 \<le> status_code response \<and> status_code response < 300)
      \<or> isl (json_result response))"

section \<open>Notions used in the proofs\<close>

text \<open>Two states that differ at most by outside calls made in between.\<close>

definition same_but_trace :: "machine \<Rightarrow> machine \<Rightarrow> bool" where
  "same_but_trace m m' = (crew m' = crew m \<and> heap m' = heap m \<and> prefix (trace m) (trace m'))"

text \<open>
  The result and the timestamp of the steps of a workflow, in order, as
  \<^verbatim>\<open>execute_agent_task\<close> and the clock produce them when the steps run one after the
  other from context \<open>context\<close> and state \<open>m\<close>, up to the first step that raises;
  the dictionary and the context that these outputs amount to.
\<close>

fun step_outputs :: "env \<Rightarrow> step list \<Rightarrow> string \<Rightarrow> machine \<Rightarrow> (json \<times> string) list" where
  "step_outputs env [] context m = []"
| "step_outputs env (s # steps) context m =
     (case execute_agent_task env (step_agent s) (step_task s) context m of
        (Inl e, m1) \<Rightarrow> []
      | (Inr result, m1) \<Rightarrow>
          (case result_preview result of
             Inl e \<Rightarrow> []
           | Inr u \<Rightarrow>
               (result, datetime_now env (trace m1))
                 # step_outputs env steps
                     (context @ context_line (step_agent s) (py_format env result))
                     (m1\<lparr>trace := trace m1 @ [ClockRead]\<rparr>)))"

fun results_of :: "nat \<Rightarrow> step list \<Rightarrow> (json \<times> string) list \<Rightarrow> (string \<times> json) list" where
  "results_of i (s # steps) (out # outs) =
     (step_key i (step_agent s), step_result (step_task s) (fst out) (snd out))
       # results_of (Suc i) steps outs"
| "results_of i steps outs = []"

fun context_of :: "env \<Rightarrow> step list \<Rightarrow> (json \<times> string) list \<Rightarrow> string" where
  "context_of env (s # steps) (out # outs) =
     context_line (step_agent s) (py_format env (fst out)) @ context_of env steps outs"
| "context_of env steps outs = []"

section \<open>Sample data\<close>

text \<open>
  An outside world for the examples: the endpoint answers the completion calls with the
  given outcomes in order and refuses the connection afterwards, the gateway lists no
  tools and answers every tool call with \<^verbatim>\<open>{"result": "sunny"}\<close>.
  \<open>sample_json_loads\<close> is \<^verbatim>\<open>json.loads\<close> on the two texts that the examples
  decode, both of which are the same dictionary (in the second, the first letter of the
  key \<^verbatim>\<open>action\<close> is written as its JSON escape, a backslash followed by
  \<^verbatim>\<open>u0061\<close>), and a decode error elsewhere; \<open>sample_repr\<close> is \<^verbatim>\<open>str()\<close> of the
  gateway's answer.
\<close>

definition ok_response :: "'b \<Rightarrow> 'b http_outcome" where
  "ok_response body = Response \<lparr>status_code = 200, http_error = [], json_result = Inr body\<rparr>"

definition status_response :: "nat \<Rightarrow> string \<Rightarrow> 'b \<Rightarrow> 'b http_outcome" where
  "status_response code reason body =
     Response \<lparr>status_code = code, http_error = reason, json_result = Inr body\<rparr>"

definition text_reply :: "string \<Rightarrow> completion_json http_outcome" where
  "text_reply text = ok_response (Content (JString text))"

definition connection_refused :: "'b http_outcome" where
  "connection_refused = Raised (Raise RequestException ''Connection refused'')"

fun is_ChatPost :: "event \<Rightarrow> bool" where
  "is_ChatPost (ChatPost url payload) = True"
| "is_ChatPost e = False"

definition tool_call_text :: string where
  "tool_call_text =
     ''{'' @ [CHR 0x22] @ ''action'' @ [CHR 0x22] @ '':'' @ [CHR 0x22] @ ''use_tool'' @ [CHR 0x22]
       @ '','' @ [CHR 0x22] @ ''tool'' @ [CHR 0x22] @ '':'' @ [CHR 0x22] @ ''t'' @ [CHR 0x22]
       @ '','' @ [CHR 0x22] @ ''parameters'' @ [CHR 0x22] @ '':{'' @ [CHR 0x22] @ ''x''
       @ [CHR 0x22] @ '':1}}''"

definition escaped_call_text :: string where
  "escaped_call_text =
     ''{'' @ [CHR 0x22, CHR 0x5C] @ ''u0061ction'' @ [CHR 0x22] @ '':'' @ [CHR 0x22]
       @ ''use_tool'' @ [CHR 0x22]
       @ '','' @ [CHR 0x22] @ ''tool'' @ [CHR 0x22] @ '':'' @ [CHR 0x22] @ ''t'' @ [CHR 0x22]
       @ '','' @ [CHR 0x22] @ ''parameters'' @ [CHR 0x22] @ '':{'' @ [CHR 0x22] @ ''x''
       @ [CHR 0x22] @ '':1}}''"

definition tool_call_dict :: "(string \<times> json) list" where
  "tool_call_dict =
     [(''action'', JString ''use_tool''), (''tool'', JString ''t''),
      (''parameters'', JObject [(''x'', JInt 1)])]"

definition sample_json_loads :: "string \<Rightarrow> py_exception + json" where
  "sample_json_loads s =
     (if s = tool_call_text \<or> s = escaped_call_text then Inr (JObject tool_call_dict)
      else Inl (Raise JSONDecodeError ''Expecting value''))"

definition sample_repr :: "json \<Rightarrow> string" where
  "sample_repr v =
     ''{'' @ [CHR 0x27] @ ''result'' @ [CHR 0x27] @ '': '' @ [CHR 0x27] @ ''sunny''
       @ [CHR 0x27] @ ''}''"

definition sample_env :: "completion_json http_outcome list \<Rightarrow> env" where
  "sample_env replies =
     \<lparr>post_chat = (\<lambda>tr url payload.
          case drop (length (filter is_ChatPost tr)) replies of
            [] \<Rightarrow> connection_refused
          | reply # later \<Rightarrow> reply),
      post_tool = (\<lambda>tr url payload. ok_response (JObject [(''result'', JString ''sunny'')])),
      get_tools = (\<lambda>tr url. ok_response (JObject [])),
      json_loads = sample_json_loads,
      py_repr = sample_repr,
      datetime_now = (\<lambda>tr. ''2025-08-07T12:00:00'')\<rparr>"

text \<open>
  Two texts on which \<^verbatim>\<open>json.loads\<close> of CPython 3.11 raises something else than
  \<^verbatim>\<open>JSONDecodeError\<close>: 1200 opening brackets after the key (not valid JSON; the
  decoder recurses once per bracket), and an integer of 4301 digits as the value (valid
  JSON; the conversion of integers stops at 4300 digits). \<open>limits_json_loads\<close> is
  \<^verbatim>\<open>json.loads\<close> on these two texts and on those of \<open>sample_json_loads\<close>.
\<close>

definition deep_text :: string where
  "deep_text = ''{'' @ [CHR 0x22] @ ''action'' @ [CHR 0x22] @ '':'' @ replicate 1200 (CHR ''['')"

definition big_int_text :: string where
  "big_int_text =
     ''{'' @ [CHR 0x22] @ ''action'' @ [CHR 0x22] @ '':'' @ replicate 4301 (CHR ''1'') @ ''}''"

definition limits_json_loads :: "string \<Rightarrow> py_exception + json" where
  "limits_json_loads s =
     (if s = deep_text
      then Inl (Raise RecursionError
                  ''maximum recursion depth exceeded while decoding a JSON array from a unicode string'')
      else if s = big_int_text
      then Inl (Raise ValueError
                  ''Exceeds the limit (4300 digits) for integer string conversion: value has 4301 digits; use sys.set_int_max_str_digits() to increase the limit'')
      else sample_json_loads s)"

definition limits_env :: "completion_json http_outcome list \<Rightarrow> env" where
  "limits_env replies = (sample_env replies)\<lparr>json_loads := limits_json_loads\<rparr>"

text \<open>The sample world with a gateway that answers tool discovery with \<open>outcome\<close>.\<close>

definition gateway_env :: "json http_outcome \<Rightarrow> env" where
  "gateway_env outcome = (sample_env [])\<lparr>get_tools := (\<lambda>tr url. outcome)\<rparr>"

definition undecodable_response :: "json http_outcome" where
  "undecodable_response =
     Response \<lparr>status_code = 200, http_error = [],
               json_result = Inl (Raise JSONDecodeError ''Expecting value'')\<rparr>"

text \<open>
  An agent of the simple program whose history is full, and a system of the advanced
  program with the first two agents of \<^verbatim>\<open>create_research_crew\<close> at the addresses 0
  and 1, added under their names as that function does.
\<close>

definition full_agent :: GPTOSSAgent where
  "full_agent =
     \<lparr>config = AgentConfig_default,
      conversation_history = replicate 10 (message ''user'' ''again'')\<rparr>"

definition researcher :: CrewAgent where
  "researcher =
     CrewAgent_init ''Senior Research Analyst''
       ''Conduct thorough research on given topics using available tools''
       ''You are an experienced researcher with access to web search and data analysis tools.''
       (Some [''web_search'', ''duckduckgo'', ''wikipedia''])"

definition analyst :: CrewAgent where
  "analyst =
     CrewAgent_init ''Data Analyst''
       ''Analyze and synthesize research findings into insights''
       ''You specialize in analyzing complex information and extracting key insights.''
       (Some [''data_analysis'', ''statistics''])"

definition empty_crew :: machine where
  "empty_crew =
     \<lparr>crew = \<lparr>config' = AgentConfig_mcp_default,
              mcp_manager = \<lparr>gateway_url = ''http://localhost:3000'',
                             available_tools = JObject []\<rparr>,
              agents = Map.empty,
              task_results = []\<rparr>,
      heap = (\<lambda>a. if a = 0 then researcher else analyst),
      trace = []\<rparr>"

definition sample_crew :: machine where
  "sample_crew = add_agent ''analyst'' 1 (add_agent ''researcher'' 0 empty_crew)"

definition sample_workflow :: "step list" where
  "sample_workflow =
     [\<lparr>step_agent = ''researcher'', step_task = ''Research X''\<rparr>,
      \<lparr>step_agent = ''analyst'', step_task = ''Analyze X''\<rparr>]"


section \<open>Proofs\<close>

subsection \<open>The conversational agent\<close>

lemma keep_manageable_le: "length (keep_manageable h) \<le> 10"
  by (simp add: keep_manageable_def)

lemma chat_cases:
  "(\<exists>e tr'. chat env self u sp tr = (Inl e, self, tr')) \<or>
   (\<exists>a tr'. chat env self u sp tr =
      (Inr a, self\<lparr>conversation_history := keep_manageable
          (conversation_history self @ [message ''user'' u] @ [message_of ''assistant'' a])\<rparr>, tr'))"
  unfolding chat_def
  by (simp split: prod.split sum.split)

lemma chat_config: "chat env self u sp tr = (r, self', tr') \<Longrightarrow> config self' = config self"
  using chat_cases [of env self u sp tr] by auto

lemma chat_history_bound:
  "chat env self u sp tr = (Inr a, self', tr') \<Longrightarrow> length (conversation_history self') \<le> 10"
  using chat_cases [of env self u sp tr] by (auto simp: keep_manageable_le)

lemma chat_history_recent:
  assumes "chat env self u sp tr = (Inr a, self', tr')"
  shows "conversation_history self' =
     drop (length (conversation_history self) + 2 - 10)
       (conversation_history self @ [message ''user'' u, message_of ''assistant'' a])"
  using chat_cases [of env self u sp tr] assms by (auto simp: keep_manageable_def)

lemma chat_history_raise:
  "chat env self u sp tr = (Inl e, self', tr') \<Longrightarrow> self' = self"
  using chat_cases [of env self u sp tr] by auto


lemma chat_history_any:
  assumes "length (conversation_history self) \<le> 10" and "chat env self u sp tr = (r, self', tr')"
  shows "length (conversation_history self') \<le> 10"
proof (cases r)
  case (Inl e)
  with assms(2) have "self' = self" by (simp add: chat_history_raise)
  with assms(1) show ?thesis by simp
next
  case (Inr a)
  with assms(2) show ?thesis by (simp add: chat_history_bound)
qed

lemma think_cases:
  "\<exists>r self2 tr'. chat env (self\<lparr>config := (config self)\<lparr>reasoning_level := level\<rparr>\<rparr>) task (Some think_system_prompt) tr = (r, self2, tr')
     \<and> think env self task level tr = (r, self2\<lparr>config := (config self2)\<lparr>reasoning_level := reasoning_level (config self)\<rparr>\<rparr>, tr')"
  unfolding think_def Let_def
  by (cases "chat env (self\<lparr>config := (config self)\<lparr>reasoning_level := level\<rparr>\<rparr>) task (Some think_system_prompt) tr") simp

lemma think_config: 
  assumes "think env self task level tr = (r, self', tr')" shows "config self' = config self"
proof -
  obtain r2 self2 tr2 where
    c: "chat env (self\<lparr>config := (config self)\<lparr>reasoning_level := level\<rparr>\<rparr>) task (Some think_system_prompt) tr = (r2, self2, tr2)"
    and t: "think env self task level tr = (r2, self2\<lparr>config := (config self2)\<lparr>reasoning_level := reasoning_level (config self)\<rparr>\<rparr>, tr2)"
    using think_cases by blast
  from c have "config self2 = (config self)\<lparr>reasoning_level := level\<rparr>"
    using chat_config by fastforce
  with t assms show ?thesis by auto
qed

lemma think_history:
  assumes "think env self task level tr = (r, self', tr')" and "length (conversation_history self) \<le> 10"
  shows "length (conversation_history self') \<le> 10"
proof -
  obtain r2 self2 tr2 where
    c: "chat env (self\<lparr>config := (config self)\<lparr>reasoning_level := level\<rparr>\<rparr>) task (Some think_system_prompt) tr = (r2, self2, tr2)"
    and t: "think env self task level tr = (r2, self2\<lparr>config := (config self2)\<lparr>reasoning_level := reasoning_level (config self)\<rparr>\<rparr>, tr2)"
    using think_cases by blast
  from c assms(2) have "length (conversation_history self2) \<le> 10"
    using chat_history_any [OF _ c] by simp
  with t assms(1) show ?thesis by auto
qed

lemma run_bound: "agent_run env st \<Longrightarrow> length (conversation_history (fst st)) \<le> 10"
proof (induction rule: agent_run.induct)
  case (constructed cfg tr)
  then show ?case by (simp add: GPTOSSAgent_init_def)
next
  case (chat_turn self tr user_input system_prompt r self' tr')
  then show ?case using chat_history_any [of self env user_input system_prompt tr r self' tr'] by simp
next
  case (think_turn self tr task level r self' tr')
  then show ?case using think_history [of env self task level tr r self' tr'] by simp
next
  case (reset_turn self tr)
  then show ?case by (simp add: reset_conversation_def)
qed

lemma make_request_raised:
  assumes "post_chat env tr (request_url self) (request_payload self messages) = Raised e"
    and "isinstance_RequestException e"
  shows "make_request env self messages tr =
     (Inl (Raise Exception (''Error communicating with model: '' @ exc_str e)),
      tr @ [ChatPost (request_url self) (request_payload self messages)])"
  using assms by (simp add: make_request_def Let_def try_except_def)

lemma make_request_status:
  assumes "post_chat env tr (request_url self) (request_payload self messages) = Response response"
    and "400 \<le> status_code response" and "status_code response < 600"
  shows "make_request env self messages tr =
     (Inl (Raise Exception (''Error communicating with model: '' @ http_error response)),
      tr @ [ChatPost (request_url self) (request_payload self messages)])"
  using assms by (simp add: make_request_def Let_def try_except_def raise_for_status_def)

text \<open>
  Claim C7, as the code has it. In the simple agent, when the POST to the completion
  endpoint raises a \<^verbatim>\<open>RequestException\<close> (a transport failure), or the response
  has a status from 400 to 599, \<^verbatim>\<open>_make_request\<close> returns no result: it raises an
  \<^verbatim>\<open>Exception\<close> to its caller whose text is
  \<^verbatim>\<open>Error communicating with model: \<close> followed by the text of the cause. The
  request is logged once. \<^verbatim>\<open>chat\<close>, the caller, raises the same exception and
  leaves the agent as it was.
\<close>

theorem make_request_raises_on_failure:
  assumes "(\<exists>e. post_chat env tr (request_url self) (request_payload self messages) = Raised e
              \<and> isinstance_RequestException e \<and> cause = exc_str e)
         \<or> (\<exists>response. post_chat env tr (request_url self) (request_payload self messages)
                = Response response
              \<and> 400 \<le> status_code response \<and> status_code response < 600
              \<and> cause = http_error response)"
  shows "make_request env self messages tr =
       (Inl (Raise Exception (''Error communicating with model: '' @ cause)),
        tr @ [ChatPost (request_url self) (request_payload self messages)])
     \<and> (messages = chat_messages self user_input system_prompt \<longrightarrow>
          chat env self user_input system_prompt tr =
            (Inl (Raise Exception (''Error communicating with model: '' @ cause)), self,
             tr @ [ChatPost (request_url self) (request_payload self messages)]))"
proof -
  have "make_request env self messages tr =
       (Inl (Raise Exception (''Error communicating with model: '' @ cause)),
        tr @ [ChatPost (request_url self) (request_payload self messages)])"
    using assms make_request_raised make_request_status by blast
  then show ?thesis by (auto simp: chat_def)
qed

lemma sample_env_simps [simp]:
  "post_chat (sample_env replies) tr url payload =
     (case drop (length (filter is_ChatPost tr)) replies of
        [] \<Rightarrow> connection_refused | reply # later \<Rightarrow> reply)"
  "post_tool (sample_env replies) tr url payload = ok_response (JObject [(''result'', JString ''sunny'')])"
  "get_tools (sample_env replies) tr url = ok_response (JObject [])"
  "json_loads (sample_env replies) = sample_json_loads"
  "py_repr (sample_env replies) = sample_repr"
  "datetime_now (sample_env replies) tr = ''2025-08-07T12:00:00''"
  by (simp_all add: sample_env_def)

text \<open>
  An endpoint that answers 503 to the first turn of a new agent: the hypothesis of the
  theorem holds, the request raises and so does \<^verbatim>\<open>chat\<close>.
\<close>

theorem make_request_raises_on_failure_witness:
  "post_chat (sample_env [status_response 503 ''503 Server Error: Service Unavailable'' (Content (JString []))])
      [] (request_url (GPTOSSAgent_init None))
      (request_payload (GPTOSSAgent_init None) (chat_messages (GPTOSSAgent_init None) ''hi'' None))
    = Response \<lparr>status_code = 503, http_error = ''503 Server Error: Service Unavailable'',
         json_result = Inr (Content (JString []))\<rparr>
   \<and> fst (make_request (sample_env [status_response 503 ''503 Server Error: Service Unavailable'' (Content (JString []))])
        (GPTOSSAgent_init None) (chat_messages (GPTOSSAgent_init None) ''hi'' None) []) =
      Inl (Raise Exception ''Error communicating with model: 503 Server Error: Service Unavailable'')
   \<and> fst (chat (sample_env [status_response 503 ''503 Server Error: Service Unavailable'' (Content (JString []))])
        (GPTOSSAgent_init None) ''hi'' None []) =
      Inl (Raise Exception ''Error communicating with model: 503 Server Error: Service Unavailable'')"
proof -
  have p: "post_chat (sample_env [status_response 503 ''503 Server Error: Service Unavailable'' (Content (JString []))])
      [] (request_url (GPTOSSAgent_init None))
      (request_payload (GPTOSSAgent_init None) (chat_messages (GPTOSSAgent_init None) ''hi'' None))
    = Response \<lparr>status_code = 503, http_error = ''503 Server Error: Service Unavailable'',
         json_result = Inr (Content (JString []))\<rparr>"
    by (simp add: status_response_def)
  show ?thesis
    using p make_request_raises_on_failure
      [of "sample_env [status_response 503 ''503 Server Error: Service Unavailable'' (Content (JString []))]"
          "[]" "GPTOSSAgent_init None" "chat_messages (GPTOSSAgent_init None) ''hi'' None"
          "''503 Server Error: Service Unavailable''" "''hi''" None]
    by simp
qed

text \<open>
  Claim C7 as stated says that the completion client of the simple agent produces a result
  with an error text and does not raise. With the connection refused,
  \<^verbatim>\<open>_make_request\<close> raises, and so does \<^verbatim>\<open>chat\<close>, which has no handler.
\<close>

theorem make_request_raises_counterexample:
  "fst (make_request (sample_env []) (GPTOSSAgent_init None) [message ''user'' ''hi''] [])
     = Inl (Raise Exception ''Error communicating with model: Connection refused'')
   \<and> fst (chat (sample_env []) (GPTOSSAgent_init None) ''hi'' None [])
     = Inl (Raise Exception ''Error communicating with model: Connection refused'')"
  by (simp add: chat_def make_request_def Let_def try_except_def connection_refused_def)

text \<open>
  Claim C10. After \<^verbatim>\<open>think\<close>, whether \<^verbatim>\<open>chat\<close> returned (\<open>r\<close> is
  \<open>Inr\<close>) or raised (\<open>r\<close> is \<open>Inl\<close>), the configuration of the agent is the
  one from before the call: \<^verbatim>\<open>reasoning_level\<close> has its old value and no other
  field has changed.
\<close>

theorem think_restores_config:
  "think env self task level tr = (r, self', tr') \<Longrightarrow> config self' = config self"
  by (rule think_config)

text \<open>
  The theorem at a call of \<^verbatim>\<open>think\<close> that returns and at one that raises.
\<close>

theorem think_restores_config_witness:
  "(fst (think (sample_env [text_reply ''Hello'']) (GPTOSSAgent_init None)
          ''plan'' ''high'' []) = Inr (JString ''Hello'')
    \<and> config (fst (snd (think (sample_env [text_reply ''Hello''])
          (GPTOSSAgent_init None) ''plan'' ''high'' []))) = config (GPTOSSAgent_init None))
   \<and> (fst (think (sample_env []) (GPTOSSAgent_init None) ''plan'' ''high'' [])
         = Inl (Raise Exception ''Error communicating with model: Connection refused'')
    \<and> config (fst (snd (think (sample_env []) (GPTOSSAgent_init None) ''plan'' ''high'' [])))
         = config (GPTOSSAgent_init None))"
proof -
  have a: "fst (think (sample_env [text_reply ''Hello'']) (GPTOSSAgent_init None)
          ''plan'' ''high'' []) = Inr (JString ''Hello'')"
    by (simp add: think_def chat_def make_request_def Let_def try_except_def ok_response_def text_reply_def
          raise_for_status_def)
  have b: "fst (think (sample_env []) (GPTOSSAgent_init None) ''plan'' ''high'' [])
         = Inl (Raise Exception ''Error communicating with model: Connection refused'')"
    by (simp add: think_def chat_def make_request_def Let_def try_except_def
          connection_refused_def)
  have c: "think (sample_env [text_reply ''Hello'']) (GPTOSSAgent_init None)
          ''plan'' ''high'' [] =
       (fst (think (sample_env [text_reply ''Hello'']) (GPTOSSAgent_init None)
          ''plan'' ''high'' []),
        fst (snd (think (sample_env [text_reply ''Hello'']) (GPTOSSAgent_init None)
          ''plan'' ''high'' [])),
        snd (snd (think (sample_env [text_reply ''Hello'']) (GPTOSSAgent_init None)
          ''plan'' ''high'' [])))"
    by simp
  have d: "think (sample_env []) (GPTOSSAgent_init None) ''plan'' ''high'' [] =
       (fst (think (sample_env []) (GPTOSSAgent_init None) ''plan'' ''high'' []),
        fst (snd (think (sample_env []) (GPTOSSAgent_init None) ''plan'' ''high'' [])),
        snd (snd (think (sample_env []) (GPTOSSAgent_init None) ''plan'' ''high'' [])))"
    by simp
  show ?thesis
    using a b think_restores_config [OF c] think_restores_config [OF d] by simp
qed

text \<open>
  Claim C6. Whatever sequence of \<^verbatim>\<open>chat\<close>, \<^verbatim>\<open>think\<close> and
  \<^verbatim>\<open>reset_conversation\<close> calls has been made on a constructed agent, its history has
  at most 10 entries. A \<^verbatim>\<open>chat\<close> call that returns leaves at most 10 entries from
  any state of the agent, namely the most recent ones: the old history followed by the two
  new entries, without its first entries beyond 10. \<^verbatim>\<open>reset_conversation\<close> leaves
  none.
\<close>

theorem history_never_exceeds_ten:
  "(agent_run env (self, tr) \<longrightarrow> length (conversation_history self) \<le> 10)
   \<and> (chat env self0 user_input system_prompt tr0 = (Inr reply, self1, tr1)
        \<longrightarrow> length (conversation_history self1) \<le> 10
          \<and> conversation_history self1 =
              drop (length (conversation_history self0) + 2 - 10)
                (conversation_history self0
                   @ [message ''user'' user_input, message_of ''assistant'' reply]))
   \<and> conversation_history (reset_conversation self0) = []"
  using run_bound [of env "(self, tr)"]
    chat_history_bound [of env self0 user_input system_prompt tr0 reply self1 tr1]
    chat_history_recent [of env self0 user_input system_prompt tr0 reply self1 tr1]
  by (simp add: reset_conversation_def)

text \<open>
  The theorem after one turn on a new agent, and on an agent whose history already has 10
  entries.
\<close>

theorem history_never_exceeds_ten_witness:
  "agent_run (sample_env [text_reply ''Hello''])
     (snd (chat (sample_env [text_reply ''Hello'']) (GPTOSSAgent_init None) ''hi'' None []))
   \<and> length (conversation_history (fst (snd (chat (sample_env [text_reply ''Hello''])
        (GPTOSSAgent_init None) ''hi'' None [])))) \<le> 10
   \<and> length (conversation_history full_agent) = 10
   \<and> fst (chat (sample_env [text_reply ''Hello'']) full_agent ''hi'' None []) = Inr (JString ''Hello'')
   \<and> length (conversation_history (fst (snd (chat (sample_env [text_reply ''Hello''])
        full_agent ''hi'' None [])))) \<le> 10
   \<and> conversation_history (reset_conversation full_agent) = []"
proof -
  let ?E = "sample_env [text_reply ''Hello'']"
  have start: "agent_run ?E (GPTOSSAgent_init None, [])"
    by (rule agent_run.constructed)
  have run: "agent_run ?E (snd (chat ?E (GPTOSSAgent_init None) ''hi'' None []))"
    using agent_run.chat_turn [OF start,
        where user_input = "''hi''" and system_prompt = None
          and r = "fst (chat ?E (GPTOSSAgent_init None) ''hi'' None [])"
          and self' = "fst (snd (chat ?E (GPTOSSAgent_init None) ''hi'' None []))"
          and tr' = "snd (snd (chat ?E (GPTOSSAgent_init None) ''hi'' None []))"]
    by simp
  have ok: "fst (chat ?E full_agent ''hi'' None []) = Inr (JString ''Hello'')"
    by (simp add: chat_def make_request_def Let_def try_except_def ok_response_def text_reply_def
          raise_for_status_def)
  then have eq: "chat ?E full_agent ''hi'' None [] =
      (Inr (JString ''Hello''), fst (snd (chat ?E full_agent ''hi'' None [])),
       snd (snd (chat ?E full_agent ''hi'' None [])))"
    by (metis prod.collapse)
  have full: "length (conversation_history full_agent) = 10"
    by (simp add: full_agent_def)
  show ?thesis
    using run ok full
      history_never_exceeds_ten [of ?E
        "fst (snd (chat ?E (GPTOSSAgent_init None) ''hi'' None []))"
        "snd (snd (chat ?E (GPTOSSAgent_init None) ''hi'' None []))"
        full_agent "''hi''" None "[]" "JString ''Hello''"
        "fst (snd (chat ?E full_agent ''hi'' None []))"
        "snd (snd (chat ?E full_agent ''hi'' None []))"]
      eq
    by simp
qed

subsection \<open>Completion requests and tool calls\<close>

lemma isinstance_Exception_True [simp]: "isinstance_Exception e"
  by (cases e) simp

lemma make_llm_request_returns:
  "\<exists>v. make_llm_request env messages m =
     (Inr v, m\<lparr>trace := trace m @ [ChatPost (llm_url m) (llm_payload m messages)]\<rparr>)"
  unfolding make_llm_request_def Let_def try_except_def
  by (simp split: sum.split http_outcome.split)

lemma call_tool_returns:
  "\<exists>v. call_tool env tool_name parameters m =
     (Inr v, m\<lparr>trace := trace m @ [GatewayPost (tool_url m) (tool_payload tool_name parameters)]\<rparr>)"
  unfolding call_tool_def Let_def try_except_def
  by (simp split: sum.split http_outcome.split)

lemma tool_call_body_final:
  "\<not> (startswith (strip text) ''{'' \<and> py_in ''action'' text) \<Longrightarrow>
   tool_call_body env messages (JString text) m = (Inr (JString text), m)"
  unfolding tool_call_body_def by (simp only: json.case if_False)

lemma tool_call_body_decode_error:
  "startswith (strip text) ''{'' \<Longrightarrow> py_in ''action'' text \<Longrightarrow>
   json_loads env text = Inl e \<Longrightarrow>
   tool_call_body env messages (JString text) m = (Inl e, m)"
  by (simp add: tool_call_body_def)

lemma tool_call_body_other_action:
  "startswith (strip text) ''{'' \<Longrightarrow> py_in ''action'' text \<Longrightarrow>
   json_loads env text = Inr (JObject d) \<Longrightarrow> dict_get d ''action'' JNull \<noteq> JString ''use_tool'' \<Longrightarrow>
   tool_call_body env messages (JString text) m = (Inr (JString text), m)"
  by (simp add: tool_call_body_def)

lemma tool_call_body_not_dict:
  "startswith (strip text) ''{'' \<Longrightarrow> py_in ''action'' text \<Longrightarrow>
   json_loads env text = Inr v \<Longrightarrow> \<forall>d. v \<noteq> JObject d \<Longrightarrow>
   tool_call_body env messages (JString text) m = (Inl (no_attribute v ''get''), m)"
  by (cases v) (simp_all add: tool_call_body_def)

lemma tool_call_body_not_text:
  "\<forall>text. response \<noteq> JString text \<Longrightarrow>
   tool_call_body env messages response m = (Inl (no_attribute response ''strip''), m)"
  by (cases response) (simp_all add: tool_call_body_def)

lemma tool_call_body_use_tool:
  assumes "startswith (strip text) ''{''" "py_in ''action'' text"
    "json_loads env text = Inr (JObject d)" "dict_get d ''action'' JNull = JString ''use_tool''"
  shows "\<exists>tool_result.
     call_tool env (dict_get d ''tool'' JNull) (dict_get d ''parameters'' (JObject [])) m =
       (Inr tool_result, m\<lparr>trace := trace m @ [GatewayPost (tool_url m)
            (tool_payload (dict_get d ''tool'' JNull) (dict_get d ''parameters'' (JObject [])))]\<rparr>) \<and>
     tool_call_body env messages (JString text) m =
       make_llm_request env (messages @ tool_followup env text (dict_get d ''tool'' JNull) tool_result)
         (m\<lparr>trace := trace m @ [GatewayPost (tool_url m)
            (tool_payload (dict_get d ''tool'' JNull) (dict_get d ''parameters'' (JObject [])))]\<rparr>)"
proof -
  obtain v where v: "call_tool env (dict_get d ''tool'' JNull) (dict_get d ''parameters'' (JObject [])) m =
       (Inr v, m\<lparr>trace := trace m @ [GatewayPost (tool_url m)
            (tool_payload (dict_get d ''tool'' JNull) (dict_get d ''parameters'' (JObject [])))]\<rparr>)"
    using call_tool_returns by blast
  show ?thesis
    using assms v by (simp add: tool_call_body_def Let_def)
qed

lemma same_but_trace_refl [simp]: "same_but_trace m m"
  by (simp add: same_but_trace_def)

lemma same_but_trace_trans: "same_but_trace a b \<Longrightarrow> same_but_trace b c \<Longrightarrow> same_but_trace a c"
  by (auto simp: same_but_trace_def)

lemma make_llm_request_frame:
  "make_llm_request env messages m = (r, m') \<Longrightarrow> same_but_trace m m'"
  using make_llm_request_returns [of env messages m] by (auto simp: same_but_trace_def)

lemma call_tool_frame:
  "call_tool env t p m = (r, m') \<Longrightarrow> same_but_trace m m'"
  using call_tool_returns [of env t p m] by (auto simp: same_but_trace_def)

lemma tool_call_body_frame:
  assumes "tool_call_body env messages response m = (r, m')"
  shows "same_but_trace m m'"
proof (cases "\<exists>rtext. response = JString rtext")
  case False
  then show ?thesis using assms tool_call_body_not_text [of response env messages m] by simp
next
  case True
  then obtain rtext where t: "response = JString rtext" by blast
  show ?thesis
  proof (cases "startswith (strip rtext) ''{'' \<and> py_in ''action'' rtext")
    case False
    then show ?thesis using assms t tool_call_body_final [of rtext env messages m] by simp
  next
    case guard: True
    show ?thesis
    proof (cases "json_loads env rtext")
      case (Inl e)
      then show ?thesis using assms t guard tool_call_body_decode_error [of rtext env e messages m] by simp
    next
      case (Inr v)
      show ?thesis
      proof (cases "\<exists>d. v = JObject d")
        case False
        then show ?thesis
          using assms t guard Inr tool_call_body_not_dict [of rtext env v messages m] by simp
      next
        case True
        then obtain d where d: "v = JObject d" by blast
        show ?thesis
        proof (cases "dict_get d ''action'' JNull = JString ''use_tool''")
          case False
          then show ?thesis
            using assms t guard Inr d tool_call_body_other_action [of rtext env d messages m] by simp
        next
          case use: True
          from tool_call_body_use_tool [of rtext env d m messages] guard Inr d use
          obtain tr where
            c: "call_tool env (dict_get d ''tool'' JNull) (dict_get d ''parameters'' (JObject [])) m =
                 (Inr tr, m\<lparr>trace := trace m @ [GatewayPost (tool_url m)
                (tool_payload (dict_get d ''tool'' JNull) (dict_get d ''parameters'' (JObject [])))]\<rparr>)"
            and b: "tool_call_body env messages (JString rtext) m =
           make_llm_request env (messages @ tool_followup env rtext (dict_get d ''tool'' JNull) tr)
             (m\<lparr>trace := trace m @ [GatewayPost (tool_url m)
                (tool_payload (dict_get d ''tool'' JNull) (dict_get d ''parameters'' (JObject [])))]\<rparr>)"
            by auto
          from assms t b have f: "make_llm_request env
             (messages @ tool_followup env rtext (dict_get d ''tool'' JNull) tr)
             (m\<lparr>trace := trace m @ [GatewayPost (tool_url m)
                (tool_payload (dict_get d ''tool'' JNull) (dict_get d ''parameters'' (JObject [])))]\<rparr>)
              = (r, m')" by simp
          show ?thesis
            by (rule same_but_trace_trans [OF call_tool_frame [OF c] make_llm_request_frame [OF f]])
        qed
      qed
    qed
  qed
qed

lemma resolve_tool_call_frame:
  assumes "resolve_tool_call env messages response m = (r, m')"
  shows "same_but_trace m m'"
proof (cases "tool_call_body env messages response m")
  case (Pair b mb)
  then have s: "same_but_trace m mb" by (rule tool_call_body_frame)
  show ?thesis
  proof (cases b)
    case (Inl e)
    with Pair assms s show ?thesis
      by (cases "isinstance_JSONDecodeError e") (simp_all add: resolve_tool_call_def try_except_st_def)
  next
    case (Inr v)
    with Pair assms s show ?thesis by (simp add: resolve_tool_call_def try_except_st_def)
  qed
qed

subsection \<open>Step keys\<close>

lemma digit_char_in: "d < 10 \<Longrightarrow> digit_char d \<in> set ''0123456789''"
  unfolding digit_char_def by (rule nth_mem) simp

lemma digit_char_inj: "d < 10 \<Longrightarrow> d' < 10 \<Longrightarrow> digit_char d = digit_char d' \<Longrightarrow> d = d'"
proof -
  assume a: "d < 10" "d' < 10" "digit_char d = digit_char d'"
  have "distinct ''0123456789''" by simp
  moreover have "d < length ''0123456789''" "d' < length ''0123456789''" using a by simp_all
  ultimately show ?thesis using a(3) unfolding digit_char_def by (simp only: nth_eq_iff_index_eq)
qed

lemma str_nat_digits: "set (str_nat n) \<subseteq> set ''0123456789''"
proof (induction n rule: str_nat.induct)
  case (1 n)
  show ?case
  proof (cases "n < 10")
    case True
    then show ?thesis using digit_char_in [of n] by (subst str_nat.simps) simp
  next
    case False
    have "n mod 10 < 10" by simp
    then have "digit_char (n mod 10) \<in> set ''0123456789''" by (rule digit_char_in)
    with False 1 show ?thesis by (subst str_nat.simps) simp
  qed
qed

lemma str_nat_nonempty: "str_nat n \<noteq> []"
  by (subst str_nat.simps) simp

lemma str_nat_inj: "str_nat a = str_nat b \<Longrightarrow> a = b"
proof (induction a arbitrary: b rule: str_nat.induct)
  case (1 n)
  show ?case
  proof (cases "n < 10")
    case True
    then have n: "str_nat n = [digit_char n]" by (subst str_nat.simps) simp
    show ?thesis
    proof (cases "b < 10")
      case b: True
      then have "str_nat b = [digit_char b]" by (subst str_nat.simps) simp
      with n "1.prems" True b show ?thesis using digit_char_inj by simp
    next
      case b: False
      then have "str_nat b = str_nat (b div 10) @ [digit_char (b mod 10)]" by (subst str_nat.simps) simp
      with n "1.prems" have "str_nat (b div 10) = []" by simp
      then show ?thesis using str_nat_nonempty by simp
    qed
  next
    case False
    then have n: "str_nat n = str_nat (n div 10) @ [digit_char (n mod 10)]" by (subst str_nat.simps) simp
    show ?thesis
    proof (cases "b < 10")
      case b: True
      then have "str_nat b = [digit_char b]" by (subst str_nat.simps) simp
      with n "1.prems" have "str_nat (n div 10) = []" by simp
      then show ?thesis using str_nat_nonempty by simp
    next
      case b: False
      then have "str_nat b = str_nat (b div 10) @ [digit_char (b mod 10)]" by (subst str_nat.simps) simp
      with n "1.prems" have e: "str_nat (n div 10) = str_nat (b div 10)" "digit_char (n mod 10) = digit_char (b mod 10)"
        by simp_all
      from "1.IH" [OF False e(1)] have "n div 10 = b div 10" .
      moreover have "n mod 10 = b mod 10" using e(2) digit_char_inj [of "n mod 10" "b mod 10"] by simp
      ultimately show ?thesis by (metis div_mult_mod_eq)
    qed
  qed
qed

lemma underscore_not_digit: "CHR ''_'' \<notin> set (str_nat n)"
  using str_nat_digits [of n] by auto

lemma append_sep_eq:
  assumes "c \<notin> set xs" "c \<notin> set ys" "xs @ c # r = ys @ c # r'"
  shows "xs = ys"
proof -
  have "takeWhile (\<lambda>x. x \<noteq> c) (xs @ c # r) = xs" using assms(1) by (subst takeWhile_append2) auto
  moreover have "takeWhile (\<lambda>x. x \<noteq> c) (ys @ c # r') = ys" using assms(2) by (subst takeWhile_append2) auto
  ultimately show ?thesis using assms(3) by simp
qed

lemma step_key_inj: "step_key i a = step_key j b \<Longrightarrow> i = j"
proof -
  assume "step_key i a = step_key j b"
  then have "str_nat i @ CHR ''_'' # a = str_nat j @ CHR ''_'' # b" by (simp add: step_key_def)
  then have "str_nat i = str_nat j"
    using append_sep_eq [OF underscore_not_digit underscore_not_digit] by blast
  then show ?thesis by (rule str_nat_inj)
qed

lemma update_fresh: "k \<notin> fst ` set al \<Longrightarrow> AList.update k v al = al @ [(k, v)]"
  by (induction al) auto

subsection \<open>One task\<close>

lemma append_history_frame [simp]:
  "crew (append_history a es m) = crew m" "trace (append_history a es m) = trace m"
  by (simp_all add: append_history_def)

lemma append_history_heap:
  "heap (append_history a es m) b =
     (if b = a then (heap m a)\<lparr>conversation_history' := conversation_history' (heap m a) @ es\<rparr>
      else heap m b)"
  by (simp add: append_history_def)

lemma execute_agent_task_not_found:
  "agents (crew m) agent_name = None \<Longrightarrow>
   execute_agent_task env agent_name task context m =
     (Inr (JString (''Agent '' @ agent_name @ '' not found'')), m)"
  by (simp add: execute_agent_task_def)

lemma execute_agent_task_registered:
  assumes "agents (crew m) agent_name = Some a"
    and "make_llm_request env (task_messages (heap m a) task context) m = (Inr response, m1)"
    and "resolve_tool_call env (task_messages (heap m a) task context) response m1 = (Inr final, m2)"
  shows "execute_agent_task env agent_name task context m =
     (Inr final, append_history a
        [message ''user'' (task_prompt_of task context), message_of ''assistant'' final] m2)"
  using assms by (simp add: execute_agent_task_def Let_def)

lemma execute_agent_task_raises:
  assumes "agents (crew m) agent_name = Some a"
    and "make_llm_request env (task_messages (heap m a) task context) m = (Inr response, m1)"
    and "resolve_tool_call env (task_messages (heap m a) task context) response m1 = (Inl e, m2)"
  shows "execute_agent_task env agent_name task context m = (Inl e, m2)"
  using assms by (simp add: execute_agent_task_def Let_def)

lemma execute_agent_task_cases:
  assumes "agents (crew m) agent_name = Some a"
  shows "(\<exists>final m2. same_but_trace m m2 \<and>
           execute_agent_task env agent_name task context m =
             (Inr final, append_history a
                [message ''user'' (task_prompt_of task context),
                 message_of ''assistant'' final] m2))
       \<or> (\<exists>e m2. same_but_trace m m2 \<and>
           execute_agent_task env agent_name task context m = (Inl e, m2))"
proof -
  obtain response where r: "make_llm_request env (task_messages (heap m a) task context) m =
     (Inr response, m\<lparr>trace := trace m @ [ChatPost (llm_url m)
        (llm_payload m (task_messages (heap m a) task context))]\<rparr>)"
    using make_llm_request_returns by blast
  let ?m1 = "m\<lparr>trace := trace m @ [ChatPost (llm_url m)
        (llm_payload m (task_messages (heap m a) task context))]\<rparr>"
  obtain res m2 where f: "resolve_tool_call env (task_messages (heap m a) task context) response ?m1
      = (res, m2)"
    by (cases "resolve_tool_call env (task_messages (heap m a) task context) response ?m1")
  have s: "same_but_trace m m2"
    by (rule same_but_trace_trans [OF make_llm_request_frame [OF r] resolve_tool_call_frame [OF f]])
  show ?thesis
  proof (cases res)
    case (Inl e)
    with f have "execute_agent_task env agent_name task context m = (Inl e, m2)"
      using execute_agent_task_raises [OF assms r] by simp
    with s show ?thesis by blast
  next
    case (Inr final)
    with f have "execute_agent_task env agent_name task context m =
             (Inr final, append_history a
                [message ''user'' (task_prompt_of task context),
                 message_of ''assistant'' final] m2)"
      using execute_agent_task_registered [OF assms r] by simp
    with s show ?thesis by blast
  qed
qed


lemma dropWhile_snoc_keep: "\<not> P c \<Longrightarrow> dropWhile P (xs @ [c]) = dropWhile P xs @ [c]"
  by (induction xs) simp_all

lemma strip_head: "\<not> py_isspace c \<Longrightarrow> \<exists>rest. strip (c # cs) = c # rest"
proof -
  assume c: "\<not> py_isspace c"
  then have "strip (c # cs) = rev (dropWhile py_isspace (rev cs @ [c]))"
    by (simp add: strip_def)
  also have "\<dots> = c # rev (dropWhile py_isspace (rev cs))"
    using c by (simp add: dropWhile_snoc_keep)
  finally show ?thesis by blast
qed

lemma error_text_plain: "plain_text env (JString (''Error: '' @ x))"
proof -
  have "\<not> py_isspace (CHR ''E'')" by (simp add: py_isspace_def)
  from strip_head [OF this, of "''rror: '' @ x"]
  have "\<not> startswith (strip (''Error: '' @ x)) ''{''"
    by (auto simp: startswith_def)
  then show ?thesis by (simp add: plain_text_def)
qed

lemma make_llm_request_plain:
  assumes "replies_plain env"
  shows "\<exists>v. make_llm_request env messages m =
           (Inr v, m\<lparr>trace := trace m @ [ChatPost (llm_url m) (llm_payload m messages)]\<rparr>)
       \<and> plain_text env v"
proof (cases "post_chat env (trace m) (llm_url m) (llm_payload m messages)")
  case (Raised e)
  then show ?thesis
    by (simp add: make_llm_request_def Let_def try_except_def error_text_plain [simplified])
next
  case (Response response)
  show ?thesis
  proof (cases "raise_for_status response")
    case (Inl e)
    with Response show ?thesis
      by (simp add: make_llm_request_def Let_def try_except_def error_text_plain [simplified])
  next
    case ok: (Inr u)
    show ?thesis
    proof (cases "json_result response")
      case (Inl e)
      with Response ok show ?thesis
        by (simp add: make_llm_request_def Let_def try_except_def error_text_plain [simplified])
    next
      case (Inr body)
      show ?thesis
      proof (cases "choices0_message_content body")
        case (Inl e)
        with Response ok Inr show ?thesis
          by (simp add: make_llm_request_def Let_def try_except_def error_text_plain [simplified])
      next
        case v: (Inr v)
        have "plain_text env v"
          using assms [unfolded replies_plain_def, rule_format, OF Response Inr v] .
        with Response ok Inr v show ?thesis
          by (simp add: make_llm_request_def Let_def try_except_def)
      qed
    qed
  qed
qed

lemma resolve_plain:
  assumes rp: "replies_plain env" and pv: "plain_text env v"
  shows "\<exists>final m'. resolve_tool_call env messages v m = (Inr final, m')
           \<and> plain_text env final \<and> same_but_trace m m'"
proof -
  from pv obtain rtext where t: "v = JString rtext"
    and dec: "startswith (strip rtext) ''{'' \<and> py_in ''action'' rtext \<longrightarrow>
           (case json_loads env rtext of
              Inl e \<Rightarrow> isinstance_JSONDecodeError e
            | Inr u \<Rightarrow> (\<exists>d. u = JObject d))"
    unfolding plain_text_def by blast
  show ?thesis
  proof (cases "startswith (strip rtext) ''{'' \<and> py_in ''action'' rtext")
    case False
    then have "resolve_tool_call env messages v m = (Inr v, m)"
      unfolding t by (simp add: resolve_tool_call_def try_except_st_def tool_call_body_final)
    with pv show ?thesis by simp
  next
    case guard: True
    show ?thesis
    proof (cases "json_loads env rtext")
      case (Inl e)
      with dec guard have "isinstance_JSONDecodeError e" by simp
      with guard Inl have "resolve_tool_call env messages v m = (Inr v, m)"
        unfolding t by (simp add: resolve_tool_call_def try_except_st_def tool_call_body_decode_error)
      with pv show ?thesis by simp
    next
      case (Inr u)
      with dec guard obtain d where d: "u = JObject d" by auto
      show ?thesis
      proof (cases "dict_get d ''action'' JNull = JString ''use_tool''")
        case False
        with guard Inr d have "resolve_tool_call env messages v m = (Inr v, m)"
          unfolding t by (simp add: resolve_tool_call_def try_except_st_def tool_call_body_other_action)
        with pv show ?thesis by simp
      next
        case use: True
        from tool_call_body_use_tool [of rtext env d m messages] guard Inr d use
        obtain tr where
          c: "call_tool env (dict_get d ''tool'' JNull) (dict_get d ''parameters'' (JObject [])) m =
               (Inr tr, m\<lparr>trace := trace m @ [GatewayPost (tool_url m)
              (tool_payload (dict_get d ''tool'' JNull) (dict_get d ''parameters'' (JObject [])))]\<rparr>)"
          and b: "tool_call_body env messages (JString rtext) m =
         make_llm_request env (messages @ tool_followup env rtext (dict_get d ''tool'' JNull) tr)
           (m\<lparr>trace := trace m @ [GatewayPost (tool_url m)
              (tool_payload (dict_get d ''tool'' JNull) (dict_get d ''parameters'' (JObject [])))]\<rparr>)"
          by auto
        let ?m1 = "m\<lparr>trace := trace m @ [GatewayPost (tool_url m)
              (tool_payload (dict_get d ''tool'' JNull) (dict_get d ''parameters'' (JObject [])))]\<rparr>"
        from make_llm_request_plain [OF rp,
            of "messages @ tool_followup env rtext (dict_get d ''tool'' JNull) tr" ?m1]
        obtain final m' where
          f: "make_llm_request env
                (messages @ tool_followup env rtext (dict_get d ''tool'' JNull) tr) ?m1
                = (Inr final, m')"
          and pf: "plain_text env final"
          by blast
        have r: "resolve_tool_call env messages v m = (Inr final, m')"
          unfolding t using b f by (simp add: resolve_tool_call_def try_except_st_def)
        have "same_but_trace m m'"
          by (rule resolve_tool_call_frame [OF r])
        with r pf show ?thesis by blast
      qed
    qed
  qed
qed

lemma execute_agent_task_plain:
  assumes rp: "replies_plain env"
  shows "\<exists>rtext m'. execute_agent_task env agent_name task context m = (Inr (JString rtext), m')"
proof (cases "agents (crew m) agent_name")
  case None
  then show ?thesis by (simp add: execute_agent_task_not_found)
next
  case (Some a)
  from make_llm_request_plain [OF rp, of "task_messages (heap m a) task context" m]
  obtain v m1 where r: "make_llm_request env (task_messages (heap m a) task context) m = (Inr v, m1)"
    and pv: "plain_text env v"
    by blast
  from resolve_plain [OF rp pv, of "task_messages (heap m a) task context" m1]
  obtain final m2 where f: "resolve_tool_call env (task_messages (heap m a) task context) v m1
      = (Inr final, m2)" and pf: "plain_text env final"
    by blast
  from pf obtain rtext where "final = JString rtext" unfolding plain_text_def by blast
  with execute_agent_task_registered [OF Some r f] show ?thesis by blast
qed

subsection \<open>Detection of a tool call\<close>

lemma url_frame [simp]:
  "llm_url (m\<lparr>trace := t\<rparr>) = llm_url m"
  "tool_url (m\<lparr>trace := t\<rparr>) = tool_url m"
  "llm_payload (m\<lparr>trace := t\<rparr>) msgs = llm_payload m msgs"
  by (simp_all add: llm_url_def tool_url_def llm_payload_def)

lemma py_in_sublist: "py_in sub s = sublist sub s"
  by (induction s) (simp_all add: sublist_Cons_right)

lemma sublist_dropWhile:
  assumes "sub \<noteq> []" and "\<not> P (hd sub)"
  shows "sublist sub (dropWhile P s) = sublist sub s"
proof (induction s)
  case Nil
  then show ?case by simp
next
  case (Cons c cs)
  show ?case
  proof (cases "P c")
    case True
    have "\<not> prefix sub (c # cs)"
    proof
      assume "prefix sub (c # cs)"
      with assms(1) have "hd sub = c" by (cases sub) auto
      with True assms(2) show False by simp
    qed
    with True Cons show ?thesis by (simp add: sublist_Cons_right)
  next
    case False
    then show ?thesis by simp
  qed
qed

lemma sublist_strip:
  assumes "sub \<noteq> []" and "\<not> py_isspace (hd sub)" and "\<not> py_isspace (last sub)"
  shows "sublist sub (strip s) = sublist sub s"
proof -
  have r: "rev sub \<noteq> []" "\<not> py_isspace (hd (rev sub))"
    using assms by (simp_all add: hd_rev)
  have "sublist sub (strip s) = sublist (rev sub) (dropWhile py_isspace (rev (dropWhile py_isspace s)))"
    unfolding strip_def by (metis sublist_rev rev_rev_ident)
  also have "\<dots> = sublist (rev sub) (rev (dropWhile py_isspace s))"
    using r by (rule sublist_dropWhile [where P = py_isspace and sub = "rev sub"])
  also have "\<dots> = sublist sub (dropWhile py_isspace s)"
    by (rule sublist_rev)
  also have "\<dots> = sublist sub s"
    using assms(1,2) by (rule sublist_dropWhile [where P = py_isspace and sub = sub])
  finally show ?thesis .
qed

lemma action_in_strip: "py_in ''action'' (strip s) = py_in ''action'' s"
  unfolding py_in_sublist by (rule sublist_strip) (simp_all add: py_isspace_def)

lemma resolve_final:
  "\<not> (startswith (strip response) ''{'' \<and> py_in ''action'' response) \<Longrightarrow>
   resolve_tool_call env messages (JString response) m = (Inr (JString response), m)"
  by (simp add: resolve_tool_call_def try_except_st_def tool_call_body_final)



lemma resolve_not_text:
  "\<forall>rtext. response \<noteq> JString rtext \<Longrightarrow>
   resolve_tool_call env messages response m = (Inl (no_attribute response ''strip''), m)"
  by (simp add: resolve_tool_call_def try_except_st_def tool_call_body_not_text no_attribute_def)

lemma make_llm_request_trace:
  "make_llm_request env messages m = (r, m1) \<Longrightarrow>
   m1 = m\<lparr>trace := trace m @ [ChatPost (llm_url m) (llm_payload m messages)]\<rparr>"
  using make_llm_request_returns [of env messages m] by auto

lemma execute_agent_task_final:
  assumes "agents (crew m) agent_name = Some a"
    and "make_llm_request env (task_messages (heap m a) task context) m = (Inr (JString response), m1)"
    and "resolve_tool_call env (task_messages (heap m a) task context) (JString response) m1
          = (Inr (JString response), m1)"
  shows "execute_agent_task env agent_name task context m =
       (Inr (JString response),
        append_history a
          [message ''user'' (task_prompt_of task context), message ''assistant'' response] m1)
     \<and> trace (snd (execute_agent_task env agent_name task context m)) =
         trace m @ [ChatPost (llm_url m) (llm_payload m (task_messages (heap m a) task context))]"
  using execute_agent_task_registered [OF assms] make_llm_request_trace [OF assms(2)]
  by (simp add: message_def)

text \<open>
  Claim C4. Let the agent be registered and let \<open>response\<close> be the text of the first
  completion. If its trimmed form does not start with a brace or does not contain
  \<^verbatim>\<open>action\<close> (the code looks for \<^verbatim>\<open>action\<close> in the untrimmed text, which by
  \<open>action_in_strip\<close> is the same), then the task's result is \<open>response\<close> unchanged,
  and the only outside call of the task is the one completion request: the gateway is not
  called and no second completion is requested.
\<close>

theorem no_tool_call_is_final:
  assumes "agents (crew m) agent_name = Some a"
    and "make_llm_request env (task_messages (heap m a) task context) m = (Inr (JString response), m1)"
    and "\<not> startswith (strip response) ''{'' \<or> \<not> py_in ''action'' (strip response)"
  shows "execute_agent_task env agent_name task context m =
       (Inr (JString response),
        append_history a
          [message ''user'' (task_prompt_of task context), message ''assistant'' response] m1)
     \<and> trace (snd (execute_agent_task env agent_name task context m)) =
         trace m @ [ChatPost (llm_url m) (llm_payload m (task_messages (heap m a) task context))]"
proof -
  from assms(3) have "\<not> (startswith (strip response) ''{'' \<and> py_in ''action'' response)"
    by (simp add: action_in_strip)
  then have "resolve_tool_call env (task_messages (heap m a) task context) (JString response) m1
      = (Inr (JString response), m1)"
    by (rule resolve_final)
  with assms(1,2) show ?thesis by (rule execute_agent_task_final)
qed



lemma execute_agent_task_not_text:
  assumes "agents (crew m) agent_name = Some a"
    and "make_llm_request env (task_messages (heap m a) task context) m = (Inr response, m1)"
    and "\<forall>rtext. response \<noteq> JString rtext"
  shows "execute_agent_task env agent_name task context m =
     (Inl (no_attribute response ''strip''), m1)"
proof -
  have r: "resolve_tool_call env (task_messages (heap m a) task context) response m1
      = (Inl (no_attribute response ''strip''), m1)"
    using assms(3) by (rule resolve_not_text)
  show ?thesis by (rule execute_agent_task_raises [OF assms(1,2) r])
qed

text \<open>
  Claim C1, as the code has it. Let the agent be registered and let \<open>response\<close>, the
  text of the first completion, start with a brace after trimming, contain the literal text
  \<^verbatim>\<open>action\<close>, and decode to a dictionary whose \<^verbatim>\<open>action\<close> is
  \<^verbatim>\<open>use_tool\<close>; let \<open>t\<close> and \<open>p\<close> be its \<^verbatim>\<open>tool\<close> and
  \<^verbatim>\<open>parameters\<close> entries (\<^verbatim>\<open>None\<close> and the empty dictionary when absent).
  Then the task makes exactly three outside calls: the first completion request, one gateway
  call with \<open>t\<close> and \<open>p\<close>, and one more completion request, on the messages of the
  first extended by the tool request and the tool result. The text of that second
  completion, whatever it is, is the result of the task.
\<close>

theorem tool_call_round_trip:
  fixes action_data :: "(string \<times> json) list"
  defines "t \<equiv> dict_get action_data ''tool'' JNull"
    and "p \<equiv> dict_get action_data ''parameters'' (JObject [])"
  assumes "agents (crew m) agent_name = Some a"
    and "make_llm_request env (task_messages (heap m a) task context) m = (Inr (JString response), m1)"
    and "startswith (strip response) ''{''" and "py_in ''action'' response"
    and "json_loads env response = Inr (JObject action_data)"
    and "dict_get action_data ''action'' JNull = JString ''use_tool''"
  shows "\<exists>tool_result final m2 m3.
       call_tool env t p m1 = (Inr tool_result, m2)
     \<and> make_llm_request env
         (task_messages (heap m a) task context @ tool_followup env response t tool_result) m2
         = (Inr final, m3)
     \<and> execute_agent_task env agent_name task context m =
         (Inr final,
          append_history a
            [message ''user'' (task_prompt_of task context), message_of ''assistant'' final] m3)
     \<and> trace m3 = trace m @
         [ChatPost (llm_url m) (llm_payload m (task_messages (heap m a) task context)),
          GatewayPost (tool_url m) (tool_payload t p),
          ChatPost (llm_url m)
            (llm_payload m
               (task_messages (heap m a) task context @ tool_followup env response t tool_result))]"
proof -
  let ?msgs = "task_messages (heap m a) task context"
  have m1: "m1 = m\<lparr>trace := trace m @ [ChatPost (llm_url m) (llm_payload m ?msgs)]\<rparr>"
    using assms(4) by (rule make_llm_request_trace)
  let ?m2 = "m1\<lparr>trace := trace m1 @ [GatewayPost (tool_url m1) (tool_payload t p)]\<rparr>"
  from tool_call_body_use_tool [OF assms(5,6,7,8), of m1 ?msgs]
  obtain tool_result where
    c: "call_tool env t p m1 = (Inr tool_result, ?m2)"
    and b: "tool_call_body env ?msgs (JString response) m1 =
        make_llm_request env (?msgs @ tool_followup env response t tool_result) ?m2"
    unfolding t_def p_def by blast
  obtain final where
    f: "make_llm_request env (?msgs @ tool_followup env response t tool_result) ?m2 =
         (Inr final, ?m2\<lparr>trace := trace ?m2 @ [ChatPost (llm_url ?m2)
            (llm_payload ?m2 (?msgs @ tool_followup env response t tool_result))]\<rparr>)"
    using make_llm_request_returns by blast
  let ?m3 = "?m2\<lparr>trace := trace ?m2 @ [ChatPost (llm_url ?m2)
            (llm_payload ?m2 (?msgs @ tool_followup env response t tool_result))]\<rparr>"
  have r: "resolve_tool_call env ?msgs (JString response) m1 = (Inr final, ?m3)"
    using b f by (simp add: resolve_tool_call_def try_except_st_def)
  have e: "execute_agent_task env agent_name task context m =
         (Inr final, append_history a
            [message ''user'' (task_prompt_of task context), message_of ''assistant'' final] ?m3)"
    by (rule execute_agent_task_registered [OF assms(3,4) r])
  have tr: "trace ?m3 = trace m @
         [ChatPost (llm_url m) (llm_payload m ?msgs),
          GatewayPost (tool_url m) (tool_payload t p),
          ChatPost (llm_url m) (llm_payload m (?msgs @ tool_followup env response t tool_result))]"
    by (simp add: m1)
  from c f e tr show ?thesis by blast
qed

subsection \<open>The sample world\<close>

lemma sample_llm_ok:
  "drop (length (filter is_ChatPost (trace m))) replies = ok_response (Content v) # later \<Longrightarrow>
   make_llm_request (sample_env replies) msgs m =
     (Inr v, m\<lparr>trace := trace m @ [ChatPost (llm_url m) (llm_payload m msgs)]\<rparr>)"
  by (simp add: make_llm_request_def Let_def try_except_def ok_response_def raise_for_status_def)

lemma limits_env_simps [simp]:
  "post_chat (limits_env replies) = post_chat (sample_env replies)"
  "post_tool (limits_env replies) = post_tool (sample_env replies)"
  "json_loads (limits_env replies) = limits_json_loads"
  "py_repr (limits_env replies) = sample_repr"
  "datetime_now (limits_env replies) = datetime_now (sample_env replies)"
  by (simp_all add: limits_env_def sample_env_def)


lemma sample_llm_refused:
  "drop (length (filter is_ChatPost (trace m))) replies = [] \<Longrightarrow>
   make_llm_request (sample_env replies) msgs m =
     (Inr (JString ''Error: Connection refused''),
      m\<lparr>trace := trace m @ [ChatPost (llm_url m) (llm_payload m msgs)]\<rparr>)"
  by (simp add: make_llm_request_def Let_def try_except_def connection_refused_def)

lemma sample_crew_simps [simp]:
  "agents (crew sample_crew) ''researcher'' = Some 0"
  "agents (crew sample_crew) ''analyst'' = Some 1"
  "agents (crew sample_crew) ''ghost'' = None"
  "heap sample_crew 0 = researcher"
  "heap sample_crew (Suc 0) = analyst"
  "trace sample_crew = []"
  by (simp_all add: sample_crew_def add_agent_def empty_crew_def)

lemma tool_call_text_sniff:
  "startswith (strip tool_call_text) ''{''" "py_in ''action'' tool_call_text"
  by (simp_all add: tool_call_text_def startswith_def strip_def py_isspace_def)

lemma escaped_call_text_sniff:
  "startswith (strip escaped_call_text) ''{''" "\<not> py_in ''action'' escaped_call_text"
  by (simp_all add: escaped_call_text_def startswith_def strip_def py_isspace_def)

lemma sample_loads_call:
  "sample_json_loads tool_call_text = Inr (JObject tool_call_dict)"
  "sample_json_loads escaped_call_text = Inr (JObject tool_call_dict)"
  "dict_get tool_call_dict ''action'' JNull = JString ''use_tool''"
  "dict_get tool_call_dict ''tool'' JNull = JString ''t''"
  "dict_get tool_call_dict ''parameters'' (JObject []) = JObject [(''x'', JInt 1)]"
  by (simp_all add: sample_json_loads_def tool_call_dict_def dict_get_def)







text \<open>
  A plain answer of the endpoint to the researcher's task.
\<close>

theorem no_tool_call_is_final_witness:
  "agents (crew sample_crew) ''researcher'' = Some 0
   \<and> make_llm_request (sample_env [text_reply ''Findings about X''])
        (task_messages (heap sample_crew 0) ''Research X'' []) sample_crew =
       (Inr (JString ''Findings about X''),
        sample_crew\<lparr>trace := trace sample_crew @ [ChatPost (llm_url sample_crew)
           (llm_payload sample_crew (task_messages (heap sample_crew 0) ''Research X'' []))]\<rparr>)
   \<and> \<not> startswith (strip ''Findings about X'') ''{''
   \<and> fst (execute_agent_task (sample_env [text_reply ''Findings about X''])
          ''researcher'' ''Research X'' [] sample_crew) = Inr (JString ''Findings about X'')
   \<and> trace (snd (execute_agent_task (sample_env [text_reply ''Findings about X''])
          ''researcher'' ''Research X'' [] sample_crew)) =
       [ChatPost (llm_url sample_crew)
          (llm_payload sample_crew (task_messages (heap sample_crew 0) ''Research X'' []))]"
proof -
  let ?E = "sample_env [text_reply ''Findings about X'']"
  have h1: "agents (crew sample_crew) ''researcher'' = Some 0" by simp
  have h2: "make_llm_request ?E (task_messages (heap sample_crew 0) ''Research X'' []) sample_crew =
       (Inr (JString ''Findings about X''),
        sample_crew\<lparr>trace := trace sample_crew @ [ChatPost (llm_url sample_crew)
           (llm_payload sample_crew (task_messages (heap sample_crew 0) ''Research X'' []))]\<rparr>)"
    by (rule sample_llm_ok) (simp add: text_reply_def)
  have h3: "\<not> startswith (strip ''Findings about X'') ''{''
        \<or> \<not> py_in ''action'' (strip ''Findings about X'')"
    by (simp add: startswith_def strip_def py_isspace_def)
  have h3': "\<not> startswith (strip ''Findings about X'') ''{''"
    by (simp add: startswith_def strip_def py_isspace_def)
  from no_tool_call_is_final [OF h1 h2 h3] h1 h2 h3' show ?thesis by simp
qed



text \<open>
  The endpoint answers both completion requests with the same tool request. The first is
  resolved by one gateway call with tool \<^verbatim>\<open>t\<close> and parameters
  \<^verbatim>\<open>{"x": 1}\<close>; the second is the result of the task as it is, and there is no
  fourth outside call.
\<close>

theorem tool_call_round_trip_witness:
  "agents (crew sample_crew) ''researcher'' = Some 0
   \<and> make_llm_request
        (sample_env [text_reply tool_call_text, text_reply tool_call_text])
        (task_messages (heap sample_crew 0) ''Research X'' []) sample_crew =
       (Inr (JString tool_call_text),
        sample_crew\<lparr>trace := trace sample_crew @ [ChatPost (llm_url sample_crew)
           (llm_payload sample_crew (task_messages (heap sample_crew 0) ''Research X'' []))]\<rparr>)
   \<and> startswith (strip tool_call_text) ''{''
   \<and> py_in ''action'' tool_call_text
   \<and> json_loads
        (sample_env [text_reply tool_call_text, text_reply tool_call_text])
        tool_call_text = Inr (JObject tool_call_dict)
   \<and> dict_get tool_call_dict ''action'' JNull = JString ''use_tool''
   \<and> fst (execute_agent_task
        (sample_env [text_reply tool_call_text, text_reply tool_call_text])
        ''researcher'' ''Research X'' [] sample_crew) = Inr (JString tool_call_text)
   \<and> map is_ChatPost (trace (snd (execute_agent_task
        (sample_env [text_reply tool_call_text, text_reply tool_call_text])
        ''researcher'' ''Research X'' [] sample_crew))) = [True, False, True]
   \<and> trace (snd (execute_agent_task
        (sample_env [text_reply tool_call_text, text_reply tool_call_text])
        ''researcher'' ''Research X'' [] sample_crew)) ! 1 =
       GatewayPost (tool_url sample_crew)
         (tool_payload (JString ''t'') (JObject [(''x'', JInt 1)]))"
proof -
  let ?E = "sample_env [text_reply tool_call_text, text_reply tool_call_text]"
  let ?msgs = "task_messages (heap sample_crew 0) ''Research X'' []"
  let ?m1 = "sample_crew\<lparr>trace := trace sample_crew @ [ChatPost (llm_url sample_crew)
           (llm_payload sample_crew ?msgs)]\<rparr>"
  have h1: "agents (crew sample_crew) ''researcher'' = Some 0" by simp
  have h2: "make_llm_request ?E ?msgs sample_crew = (Inr (JString tool_call_text), ?m1)"
    by (rule sample_llm_ok) (simp add: text_reply_def)
  note h3 = tool_call_text_sniff(1) and h4 = tool_call_text_sniff(2)
  have h5: "json_loads ?E tool_call_text = Inr (JObject tool_call_dict)"
    by (simp add: sample_loads_call)
  note h6 = sample_loads_call(3)
  from tool_call_round_trip [OF h1 h2 h3 h4 h5 h6]
  obtain tool_result final m2 m3 where
    c: "call_tool ?E (dict_get tool_call_dict ''tool'' JNull)
          (dict_get tool_call_dict ''parameters'' (JObject [])) ?m1 = (Inr tool_result, m2)"
    and f: "make_llm_request ?E
         (?msgs @ tool_followup ?E tool_call_text (dict_get tool_call_dict ''tool'' JNull) tool_result)
         m2 = (Inr final, m3)"
    and e: "execute_agent_task ?E ''researcher'' ''Research X'' [] sample_crew =
         (Inr final,
          append_history 0
            [message ''user'' (task_prompt_of ''Research X'' []), message_of ''assistant'' final] m3)"
    and t: "trace m3 = trace sample_crew @
         [ChatPost (llm_url sample_crew) (llm_payload sample_crew ?msgs),
          GatewayPost (tool_url sample_crew)
            (tool_payload (dict_get tool_call_dict ''tool'' JNull)
               (dict_get tool_call_dict ''parameters'' (JObject []))),
          ChatPost (llm_url sample_crew)
            (llm_payload sample_crew
               (?msgs @ tool_followup ?E tool_call_text
                  (dict_get tool_call_dict ''tool'' JNull) tool_result))]"
    by blast
  have m2: "trace m2 = trace ?m1 @ [GatewayPost (tool_url ?m1)
       (tool_payload (dict_get tool_call_dict ''tool'' JNull)
          (dict_get tool_call_dict ''parameters'' (JObject [])))]"
    using c call_tool_returns [of ?E "dict_get tool_call_dict ''tool'' JNull"
        "dict_get tool_call_dict ''parameters'' (JObject [])" ?m1]
    by auto
  have "make_llm_request ?E
         (?msgs @ tool_followup ?E tool_call_text (dict_get tool_call_dict ''tool'' JNull) tool_result)
         m2 = (Inr (JString tool_call_text), m2\<lparr>trace := trace m2 @ [ChatPost (llm_url m2)
            (llm_payload m2 (?msgs @ tool_followup ?E tool_call_text
                (dict_get tool_call_dict ''tool'' JNull) tool_result))]\<rparr>)"
    by (rule sample_llm_ok) (simp add: m2 text_reply_def)
  with f have final: "final = JString tool_call_text" by simp
  show ?thesis
    using h1 h2 h3 h4 h5 h6 e t final by (simp add: sample_loads_call)
qed

text \<open>
  Claim C1 as stated speaks of every response that decodes to a dictionary with
  \<^verbatim>\<open>action\<close> equal to \<^verbatim>\<open>use_tool\<close>. The response of this example decodes
  to such a dictionary, but it writes the first letter of the key \<^verbatim>\<open>action\<close> as a
  JSON escape, so the text does not contain \<^verbatim>\<open>action\<close>: the check before
  \<^verbatim>\<open>json.loads\<close> fails, the gateway is not called, no second completion is
  requested, and the result of the task is the raw JSON text.
\<close>

theorem tool_call_without_literal_action_counterexample:
  "json_loads (sample_env [text_reply escaped_call_text, text_reply ''done''])
       escaped_call_text = Inr (JObject tool_call_dict)
   \<and> dict_get tool_call_dict ''action'' JNull = JString ''use_tool''
   \<and> agents (crew sample_crew) ''researcher'' = Some 0
   \<and> fst (make_llm_request
        (sample_env [text_reply escaped_call_text, text_reply ''done''])
        (task_messages (heap sample_crew 0) ''Research X'' []) sample_crew) = Inr (JString escaped_call_text)
   \<and> fst (execute_agent_task
        (sample_env [text_reply escaped_call_text, text_reply ''done''])
        ''researcher'' ''Research X'' [] sample_crew) = Inr (JString escaped_call_text)
   \<and> trace (snd (execute_agent_task
        (sample_env [text_reply escaped_call_text, text_reply ''done''])
        ''researcher'' ''Research X'' [] sample_crew)) =
       [ChatPost (llm_url sample_crew)
          (llm_payload sample_crew (task_messages (heap sample_crew 0) ''Research X'' []))]"
proof -
  let ?E = "sample_env [text_reply escaped_call_text, text_reply ''done'']"
  let ?msgs = "task_messages (heap sample_crew 0) ''Research X'' []"
  let ?m1 = "sample_crew\<lparr>trace := trace sample_crew @ [ChatPost (llm_url sample_crew)
           (llm_payload sample_crew ?msgs)]\<rparr>"
  have h1: "agents (crew sample_crew) ''researcher'' = Some 0" by simp
  have h2: "make_llm_request ?E ?msgs sample_crew = (Inr (JString escaped_call_text), ?m1)"
    by (rule sample_llm_ok) (simp add: text_reply_def)
  have r: "resolve_tool_call ?E ?msgs (JString escaped_call_text) ?m1 = (Inr (JString escaped_call_text), ?m1)"
    by (rule resolve_final) (simp add: escaped_call_text_sniff)
  from execute_agent_task_final [OF h1 h2 r] h1 h2
  show ?thesis by (simp add: sample_loads_call)
qed

subsection \<open>Tool discovery\<close>

lemma discover_tools_returns:
  "\<exists>mgr'. discover_tools env mgr tr = (Inr (), mgr', tr @ [GatewayGet (gateway_url mgr @ ''/tools'')])
     \<and> gateway_url mgr' = gateway_url mgr"
  unfolding discover_tools_def Let_def try_except_st_def
  by (simp split: http_outcome.split sum.split)

lemma discover_tools_failed:
  assumes "discovery_failed (get_tools env tr (gateway_url mgr @ ''/tools''))"
  shows "discover_tools env mgr tr = (Inr (), mgr, tr @ [GatewayGet (gateway_url mgr @ ''/tools'')])"
proof (cases "get_tools env tr (gateway_url mgr @ ''/tools'')")
  case (Raised e)
  then show ?thesis by (simp add: discover_tools_def Let_def try_except_st_def)
next
  case (Response response)
  show ?thesis
  proof (cases "status_code response = 200")
    case True
    with assms Response obtain e where "json_result response = Inl e"
      by (cases "json_result response") auto
    with True Response show ?thesis
      by (simp add: discover_tools_def Let_def try_except_st_def)
  next
    case False
    with Response show ?thesis by (simp add: discover_tools_def Let_def try_except_st_def)
  qed
qed

text \<open>
  Claim C8. The constructor of \<^verbatim>\<open>MCPToolManager\<close> returns for every answer of the
  gateway (it never raises), after one discovery request. When discovery fails, that is when
  the request raises, the status is not 2xx, or the body does not decode, the tools stay the
  empty dictionary the constructor started with, and \<^verbatim>\<open>MultiAgentSystem\<close> is
  constructed with that manager, no agents and no task results.
\<close>

theorem discovery_never_fatal:
  "(\<exists>mgr. MCPToolManager_init env url tr = (Inr mgr, tr @ [GatewayGet (url @ ''/tools'')]))
   \<and> (discovery_failed (get_tools env tr (url @ ''/tools'')) \<longrightarrow>
        MCPToolManager_init env url tr =
          (Inr \<lparr>gateway_url = url, available_tools = JObject []\<rparr>,
           tr @ [GatewayGet (url @ ''/tools'')]))
   \<and> (discovery_failed (get_tools env tr (mcp_gateway_url c @ ''/tools'')) \<longrightarrow>
        MultiAgentSystem_init env (Some c) tr =
          (Inr \<lparr>config' = c,
                mcp_manager = \<lparr>gateway_url = mcp_gateway_url c, available_tools = JObject []\<rparr>,
                agents = Map.empty, task_results = []\<rparr>,
           tr @ [GatewayGet (mcp_gateway_url c @ ''/tools'')]))"
proof -
  have a: "\<exists>mgr. MCPToolManager_init env url tr = (Inr mgr, tr @ [GatewayGet (url @ ''/tools'')])"
    using discover_tools_returns [of env "\<lparr>gateway_url = url, available_tools = JObject []\<rparr>" tr]
    by (auto simp: MCPToolManager_init_def)
  have b: "MCPToolManager_init env u tr =
          (Inr \<lparr>gateway_url = u, available_tools = JObject []\<rparr>, tr @ [GatewayGet (u @ ''/tools'')])"
    if "discovery_failed (get_tools env tr (u @ ''/tools''))" for u
    using discover_tools_failed [of env tr "\<lparr>gateway_url = u, available_tools = JObject []\<rparr>"] that
    by (simp add: MCPToolManager_init_def)
  show ?thesis
    using a b [of url] b [of "mcp_gateway_url c"] by (simp add: MultiAgentSystem_init_def)
qed

lemma gateway_env_get [simp]: "get_tools (gateway_env outcome) tr url = outcome"
  by (simp add: gateway_env_def)

text \<open>
  The three kinds of failure: a refused connection, a 503 answer (whose body lists a tool),
  and a 200 answer whose body does not decode.
\<close>

theorem discovery_never_fatal_witness:
  "discovery_failed (get_tools (gateway_env connection_refused) [] (''http://localhost:3000'' @ ''/tools''))
   \<and> MCPToolManager_init (gateway_env connection_refused) ''http://localhost:3000'' [] =
       (Inr \<lparr>gateway_url = ''http://localhost:3000'', available_tools = JObject []\<rparr>,
        [] @ [GatewayGet (''http://localhost:3000'' @ ''/tools'')])
   \<and> discovery_failed (get_tools (gateway_env (status_response 503 ''503 Server Error'' (JObject [(''search'', JObject [])])))
        [] (''http://localhost:3000'' @ ''/tools''))
   \<and> MCPToolManager_init (gateway_env (status_response 503 ''503 Server Error'' (JObject [(''search'', JObject [])])))
        ''http://localhost:3000'' [] =
       (Inr \<lparr>gateway_url = ''http://localhost:3000'', available_tools = JObject []\<rparr>,
        [] @ [GatewayGet (''http://localhost:3000'' @ ''/tools'')])
   \<and> discovery_failed (get_tools (gateway_env undecodable_response) []
        (mcp_gateway_url AgentConfig_mcp_default @ ''/tools''))
   \<and> MultiAgentSystem_init (gateway_env undecodable_response) (Some AgentConfig_mcp_default) [] =
       (Inr \<lparr>config' = AgentConfig_mcp_default,
             mcp_manager = \<lparr>gateway_url = mcp_gateway_url AgentConfig_mcp_default,
                            available_tools = JObject []\<rparr>,
             agents = Map.empty, task_results = []\<rparr>,
        [] @ [GatewayGet (mcp_gateway_url AgentConfig_mcp_default @ ''/tools'')])"
proof -
  have d1: "discovery_failed (get_tools (gateway_env connection_refused) [] (''http://localhost:3000'' @ ''/tools''))"
    by (simp add: connection_refused_def)
  have d2: "discovery_failed (get_tools (gateway_env (status_response 503 ''503 Server Error'' (JObject [(''search'', JObject [])])))
        [] (''http://localhost:3000'' @ ''/tools''))"
    by (simp add: status_response_def)
  have d3: "discovery_failed (get_tools (gateway_env undecodable_response) []
        (mcp_gateway_url AgentConfig_mcp_default @ ''/tools''))"
    by (simp add: undecodable_response_def)
  show ?thesis
    using d1 d2 d3
      discovery_never_fatal [of "gateway_env connection_refused" "''http://localhost:3000''" "[]"]
      discovery_never_fatal [of "gateway_env (status_response 503 ''503 Server Error'' (JObject [(''search'', JObject [])]))"
         "''http://localhost:3000''" "[]"]
      discovery_never_fatal [of "gateway_env undecodable_response" _ "[]" AgentConfig_mcp_default]
    by simp
qed

subsection \<open>The workflow loop\<close>





lemma result_preview_unit: "result_preview v = Inr u \<longleftrightarrow> \<not> isl (result_preview v)"
  by (cases "result_preview v") simp_all

lemma crew_loop_step:
  assumes "crew_loop env i (s # steps) results context m = (Inr out, m')"
  shows "\<exists>result m1.
       execute_agent_task env (step_agent s) (step_task s) context m = (Inr result, m1)
     \<and> result_preview result = Inr ()
     \<and> crew_loop env (Suc i) steps
         (AList.update (step_key i (step_agent s))
            (step_result (step_task s) result (datetime_now env (trace m1))) results)
         (context @ context_line (step_agent s) (py_format env result))
         (m1\<lparr>trace := trace m1 @ [ClockRead]\<rparr>) = (Inr out, m')"
proof (cases "execute_agent_task env (step_agent s) (step_task s) context m")
  case (Pair r m1)
  show ?thesis
  proof (cases r)
    case (Inl e)
    with Pair assms show ?thesis by simp
  next
    case (Inr result)
    show ?thesis
    proof (cases "result_preview result")
      case (Inl e)
      with Pair Inr assms show ?thesis by simp
    next
      case ok: (Inr u)
      with Pair Inr assms show ?thesis by simp
    qed
  qed
qed

lemma step_outputs_step:
  assumes "execute_agent_task env (step_agent s) (step_task s) context m = (Inr result, m1)"
    and "result_preview result = Inr ()"
  shows "step_outputs env (s # steps) context m =
     (result, datetime_now env (trace m1))
       # step_outputs env steps (context @ context_line (step_agent s) (py_format env result))
           (m1\<lparr>trace := trace m1 @ [ClockRead]\<rparr>)"
  using assms by simp


lemma crew_loop_context:
  "crew_loop env i steps results context m = (Inr (results', context'), m') \<Longrightarrow>
   context' = context @ context_of env steps (step_outputs env steps context m)
   \<and> length (step_outputs env steps context m) = length steps"
proof (induction steps arbitrary: i results "context" m)
  case Nil
  then show ?case by simp
next
  case (Cons s steps)
  from crew_loop_step [OF Cons.prems] obtain result m1 where
    e: "execute_agent_task env (step_agent s) (step_task s) context m = (Inr result, m1)"
    and p: "result_preview result = Inr ()"
    and l: "crew_loop env (Suc i) steps
         (AList.update (step_key i (step_agent s))
            (step_result (step_task s) result (datetime_now env (trace m1))) results)
         (context @ context_line (step_agent s) (py_format env result))
         (m1\<lparr>trace := trace m1 @ [ClockRead]\<rparr>) = (Inr (results', context'), m')"
    by blast
  from Cons.IH [OF l] show ?case
    unfolding step_outputs_step [OF e p] by simp
qed

lemma crew_loop_results:
  "(\<forall>j a. i \<le> j \<longrightarrow> step_key j a \<notin> fst ` set results) \<Longrightarrow>
   crew_loop env i steps results context m = (Inr (results', context'), m') \<Longrightarrow>
   results' = results @ results_of i steps (step_outputs env steps context m)"
proof (induction steps arbitrary: i results "context" m)
  case Nil
  then show ?case by simp
next
  case (Cons s steps)
  from crew_loop_step [OF Cons.prems(2)] obtain result m1 where
    e: "execute_agent_task env (step_agent s) (step_task s) context m = (Inr result, m1)"
    and p: "result_preview result = Inr ()"
    and l: "crew_loop env (Suc i) steps
         (AList.update (step_key i (step_agent s))
            (step_result (step_task s) result (datetime_now env (trace m1))) results)
         (context @ context_line (step_agent s) (py_format env result))
         (m1\<lparr>trace := trace m1 @ [ClockRead]\<rparr>) = (Inr (results', context'), m')"
    by blast
  let ?k = "step_key i (step_agent s)"
  let ?v = "step_result (step_task s) result (datetime_now env (trace m1))"
  have fresh: "?k \<notin> fst ` set results" using Cons.prems(1) by blast
  have upd: "AList.update ?k ?v results = results @ [(?k, ?v)]"
    by (rule update_fresh [OF fresh])
  have inv: "\<forall>j a. Suc i \<le> j \<longrightarrow> step_key j a \<notin> fst ` set (results @ [(?k, ?v)])"
  proof (intro allI impI)
    fix j a assume j: "Suc i \<le> j"
    then have "step_key j a \<notin> fst ` set results" using Cons.prems(1) by simp
    moreover have "step_key j a \<noteq> ?k" using step_key_inj [of j a i "step_agent s"] j by auto
    ultimately show "step_key j a \<notin> fst ` set (results @ [(?k, ?v)])" by auto
  qed
  from Cons.IH [OF inv l [unfolded upd]] show ?case
    unfolding step_outputs_step [OF e p] by simp
qed

lemma crew_loop_plain:
  assumes rp: "replies_plain env"
  shows "\<exists>results' context' m'.
     crew_loop env i steps results context m = (Inr (results', context'), m')"
proof (induction steps arbitrary: i results "context" m)
  case Nil
  then show ?case by simp
next
  case (Cons s steps)
  from execute_agent_task_plain [OF rp, of "step_agent s" "step_task s" "context" m]
  obtain rtext m1 where
    e: "execute_agent_task env (step_agent s) (step_task s) context m = (Inr (JString rtext), m1)"
    by blast
  have "\<exists>results' context' m'.
     crew_loop env (Suc i) steps
       (AList.update (step_key i (step_agent s))
          (step_result (step_task s) (JString rtext) (datetime_now env (trace m1))) results)
       (context @ context_line (step_agent s) (py_format env (JString rtext)))
       (m1\<lparr>trace := trace m1 @ [ClockRead]\<rparr>) = (Inr (results', context'), m')"
    by (rule Cons.IH)
  then show ?case using e by simp
qed

lemma crew_loop_append:
  "crew_loop env i (xs @ ys) results context m =
     (case crew_loop env i xs results context m of
        (Inl e, m1) \<Rightarrow> (Inl e, m1)
      | (Inr (results1, context1), m1) \<Rightarrow>
          crew_loop env (i + length xs) ys results1 context1 m1)"
proof (induction xs arbitrary: i results "context" m)
  case Nil
  then show ?case by simp
next
  case (Cons s xs)
  show ?case
  proof (cases "execute_agent_task env (step_agent s) (step_task s) context m")
    case (Pair r m1)
    then show ?thesis
    proof (cases r)
      case (Inl e)
      with Pair show ?thesis by simp
    next
      case (Inr result)
      with Pair Cons show ?thesis by (simp split: prod.split sum.split)
    qed
  qed
qed

lemma step_outputs_append:
  "step_outputs env (xs @ ys) context m =
     (case crew_loop env i xs results context m of
        (Inl e, m1) \<Rightarrow> step_outputs env xs context m
      | (Inr (results1, context1), m1) \<Rightarrow>
          step_outputs env xs context m @ step_outputs env ys context1 m1)"
proof (induction xs arbitrary: i results "context" m)
  case Nil
  then show ?case by simp
next
  case (Cons s xs)
  show ?case
  proof (cases "execute_agent_task env (step_agent s) (step_task s) context m")
    case (Pair r m1)
    then show ?thesis
    proof (cases r)
      case (Inl e)
      with Pair show ?thesis by simp
    next
      case (Inr result)
      show ?thesis
      proof (cases "result_preview result")
        case (Inl e)
        with Pair Inr show ?thesis by simp
      next
        case ok: (Inr u)
        have "step_outputs env (xs @ ys)
            (context @ context_line (step_agent s) (py_format env result))
            (m1\<lparr>trace := trace m1 @ [ClockRead]\<rparr>) =
          (case crew_loop env (Suc i) xs
              (AList.update (step_key i (step_agent s))
                 (step_result (step_task s) result (datetime_now env (trace m1))) results)
              (context @ context_line (step_agent s) (py_format env result))
              (m1\<lparr>trace := trace m1 @ [ClockRead]\<rparr>) of
             (Inl e, m2) \<Rightarrow> step_outputs env xs
                (context @ context_line (step_agent s) (py_format env result))
                (m1\<lparr>trace := trace m1 @ [ClockRead]\<rparr>)
           | (Inr (results1, context1), m2) \<Rightarrow>
               step_outputs env xs
                 (context @ context_line (step_agent s) (py_format env result))
                 (m1\<lparr>trace := trace m1 @ [ClockRead]\<rparr>)
               @ step_outputs env ys context1 m2)"
          by (rule Cons)
        then show ?thesis using Pair Inr ok by (simp split: prod.split sum.split)
      qed
    qed
  qed
qed

subsection \<open>States of the loop\<close>


lemma earlier_state_exists:
  assumes "workflow_state env workflow m k = (Inr (results_k, context_k), m_k)" and "i \<le> k"
  shows "\<exists>results_i context_i m_i.
     workflow_state env workflow m i = (Inr (results_i, context_i), m_i)"
proof -
  have t: "take k workflow = take i workflow @ drop i (take k workflow)"
    using assms(2) by (metis append_take_drop_id min.absorb1 take_take)
  obtain r m_i where c: "crew_loop env 1 (take i workflow) [] [] m = (r, m_i)"
    by (cases "crew_loop env 1 (take i workflow) [] [] m")
  have "crew_loop env 1 (take i workflow @ drop i (take k workflow)) [] [] m =
      (Inr (results_k, context_k), m_k)"
    using assms(1) t by (simp add: workflow_state_def)
  then have "\<not> isl r"
    unfolding crew_loop_append using c by (cases r) simp_all
  then obtain out where "r = Inr out" by (cases r) simp_all
  with c show ?thesis unfolding workflow_state_def by (cases out) simp
qed

lemma crew_loop_resume:
  assumes "workflow_state env workflow m i = (Inr (results_i, context_i), m_i)"
    and "i \<le> length workflow"
  shows "crew_loop env 1 workflow [] [] m =
     crew_loop env (Suc i) (drop i workflow) results_i context_i m_i"
proof -
  have "crew_loop env 1 (take i workflow @ drop i workflow) [] [] m =
     crew_loop env (1 + length (take i workflow)) (drop i workflow) results_i context_i m_i"
    using assms(1) unfolding workflow_state_def by (subst crew_loop_append) simp
  with assms(2) show ?thesis by (simp add: min_absorb2)
qed

lemma workflow_state_outputs:
  assumes "workflow_state env workflow m j = (Inr (results_j, context_j), m_j)"
    and "j \<le> length workflow"
  shows "step_outputs env workflow [] m =
     step_outputs env (take j workflow) [] m @ step_outputs env (drop j workflow) context_j m_j"
    and "length (step_outputs env (take j workflow) [] m) = j"
    and "context_j = context_of env (take j workflow) (step_outputs env (take j workflow) [] m)"
    and "results_j = results_of 1 (take j workflow) (step_outputs env (take j workflow) [] m)"
proof -
  have c: "crew_loop env 1 (take j workflow) [] [] m = (Inr (results_j, context_j), m_j)"
    using assms(1) by (simp add: workflow_state_def)
  have "step_outputs env (take j workflow @ drop j workflow) [] m =
     step_outputs env (take j workflow) [] m @ step_outputs env (drop j workflow) context_j m_j"
    by (subst step_outputs_append [where i = "Suc 0" and results = "[]"])
      (simp add: c [simplified])
  then show "step_outputs env workflow [] m =
     step_outputs env (take j workflow) [] m @ step_outputs env (drop j workflow) context_j m_j"
    by simp
  from crew_loop_context [OF c] assms(2)
  show "length (step_outputs env (take j workflow) [] m) = j"
    and "context_j = context_of env (take j workflow) (step_outputs env (take j workflow) [] m)"
    by (simp_all add: min_absorb2)
  have "\<forall>n a. 1 \<le> n \<longrightarrow> step_key n a \<notin> fst ` set ([] :: (string \<times> json) list)" by simp
  from crew_loop_results [OF this c]
  show "results_j = results_of 1 (take j workflow) (step_outputs env (take j workflow) [] m)"
    by simp
qed

lemma state_step:
  assumes s: "workflow_state env workflow m j = (Inr (results_j, context_j), m_j)"
    and j: "j < length workflow"
    and o: "j < length (step_outputs env workflow [] m)"
  shows "\<exists>m1. execute_agent_task env (step_agent (workflow ! j)) (step_task (workflow ! j))
            context_j m_j = (Inr (fst (step_outputs env workflow [] m ! j)), m1)
     \<and> snd (step_outputs env workflow [] m ! j) = datetime_now env (trace m1)
     \<and> result_preview (fst (step_outputs env workflow [] m ! j)) = Inr ()"
proof -
  let ?outs = "step_outputs env workflow [] m"
  let ?s = "workflow ! j"
  have jl: "j \<le> length workflow" using j by simp
  note w = workflow_state_outputs [OF s jl]
  have d: "drop j workflow = ?s # drop (Suc j) workflow"
    using j by (simp add: Cons_nth_drop_Suc)
  have n: "?outs ! j = step_outputs env (?s # drop (Suc j) workflow) context_j m_j ! 0"
    unfolding w(1) d [symmetric] using w(2) by (simp add: nth_append)
  have ne: "step_outputs env (?s # drop (Suc j) workflow) context_j m_j \<noteq> []"
    using o w(2) unfolding w(1) d [symmetric] by auto
  obtain r m1 where e: "execute_agent_task env (step_agent ?s) (step_task ?s) context_j m_j = (r, m1)"
    by (cases "execute_agent_task env (step_agent ?s) (step_task ?s) context_j m_j")
  show ?thesis
  proof (cases r)
    case (Inl x)
    with e ne show ?thesis by simp
  next
    case (Inr result)
    show ?thesis
    proof (cases "result_preview result")
      case (Inl x)
      with e Inr ne show ?thesis by simp
    next
      case ok: (Inr u)
      then have p: "result_preview result = Inr ()" by simp
      have "?outs ! j = (result, datetime_now env (trace m1))"
        unfolding n using step_outputs_step [OF e [unfolded Inr] p] by simp
      with e Inr p show ?thesis by simp
    qed
  qed
qed


subsection \<open>The sample workflows\<close>

lemma sample_text_plain: "plain_text (sample_env replies) (JString t)"
  by (simp add: plain_text_def sample_json_loads_def)

lemma sample_replies_plain:
  assumes "\<forall>r \<in> set replies. \<exists>t. r = text_reply t"
  shows "replies_plain (sample_env replies)"
  unfolding replies_plain_def
proof (intro allI impI)
  fix tr url payload response body v
  assume p: "post_chat (sample_env replies) tr url payload = Response response"
    and b: "json_result response = Inr body"
    and c: "choices0_message_content body = Inr v"
  show "plain_text (sample_env replies) v"
  proof (cases "drop (length (filter is_ChatPost tr)) replies")
    case Nil
    with p show ?thesis by (simp add: connection_refused_def)
  next
    case (Cons reply later)
    then have "reply \<in> set (drop (length (filter is_ChatPost tr)) replies)" by simp
    then have "reply \<in> set replies" by (rule in_set_dropD)
    with assms obtain t where "reply = text_reply t" by blast
    with Cons p b c have "v = JString t"
      by (auto simp: text_reply_def ok_response_def)
    then show ?thesis by (simp add: sample_text_plain)
  qed
qed



lemma step_key_1: "step_key (Suc 0) a = ''step_1_'' @ a"
  by (simp add: step_key_def str_nat.simps digit_char_def)

lemma step_key_2: "step_key (Suc (Suc 0)) a = ''step_2_'' @ a"
  by (simp add: step_key_def str_nat.simps digit_char_def)





subsection \<open>The context\<close>

lemma context_of_take_outs:
  "context_of env (take i steps) (take i outs) = context_of env (take i steps) outs"
proof (induction steps arbitrary: i outs)
  case Nil
  then show ?case by simp
next
  case (Cons s steps)
  then show ?case by (cases i; cases outs) simp_all
qed

lemma context_of_snoc:
  "k < length steps \<Longrightarrow> k < length outs \<Longrightarrow>
   context_of env (take (Suc k) steps) outs =
     context_of env (take k steps) outs
       @ context_line (step_agent (steps ! k)) (py_format env (fst (outs ! k)))"
proof (induction steps arbitrary: k outs)
  case Nil
  then show ?case by simp
next
  case (Cons s steps)
  then show ?case by (cases k; cases outs) simp_all
qed

lemma context_of_grows:
  assumes "k \<le> length steps" and "k \<le> length outs" and "i \<le> k"
  shows "context_of env (take k steps) outs =
     context_of env (take i steps) outs @
       concat (map (\<lambda>j. context_line (step_agent (steps ! j)) (py_format env (fst (outs ! j))))
                 [i..<k])"
  using assms
proof (induction k)
  case 0
  then show ?case by simp
next
  case (Suc k)
  show ?case
  proof (cases "i = Suc k")
    case True
    then show ?thesis by simp
  next
    case False
    with Suc.prems have "i \<le> k" "k < length steps" "k < length outs" by simp_all
    with Suc.IH context_of_snoc [of k steps outs env] show ?thesis by simp
  qed
qed

lemma state_context:
  assumes "workflow_state env workflow m j = (Inr (results_j, context_j), m_j)"
    and "j \<le> length workflow"
  shows "j \<le> length (step_outputs env workflow [] m)"
    and "context_j = context_of env (take j workflow) (step_outputs env workflow [] m)"
proof -
  note w = workflow_state_outputs [OF assms]
  from w(1,2) show "j \<le> length (step_outputs env workflow [] m)" by simp
  from w(1,2) have "step_outputs env (take j workflow) [] m =
      take j (step_outputs env workflow [] m)"
    by simp
  with w(3) show "context_j = context_of env (take j workflow) (step_outputs env workflow [] m)"
    by (simp add: context_of_take_outs)
qed

text \<open>
  Claim C3. Let the loop have completed \<open>k\<close> steps of a workflow, that is, let the state
  after \<open>k\<close> steps exist, and let \<open>i \<le> k\<close>. Then the steps before \<open>k\<close> have results
  \<open>r j\<close> such that:

  \<^item> each step \<open>j + 1 \<le> k\<close> started in the state after \<open>j\<close> steps, where
    \<^verbatim>\<open>execute_agent_task\<close> returned \<open>r j\<close>, and led to the state after \<open>j + 1\<close>
    steps, whose context is the context before, unchanged, followed by the line of the step;

  \<^item> the context after \<open>k\<close> steps is the lines of the steps 1 to \<open>k\<close> in their order;

  \<^item> the state after \<open>i\<close> steps exists, the loop on the whole workflow goes on from it,
    its context is the lines of the steps 1 to \<open>i\<close>, and the context after \<open>k\<close> steps is
    that context, unchanged, followed by the lines of the steps \<open>i + 1\<close> to \<open>k\<close>.

  The line of a step is a newline, the agent name, \<^verbatim>\<open> completed: \<close>, the result of
  the step as an f-string prints it, and a newline.
\<close>

theorem context_accumulates:
  assumes "workflow_state env workflow m k = (Inr (results_k, context_k), m_k)"
    and "i \<le> k" and "k \<le> length workflow"
  shows "\<exists>r.
       (\<forall>j<k. \<exists>results_j context_j m_j m1.
            workflow_state env workflow m j = (Inr (results_j, context_j), m_j)
          \<and> execute_agent_task env (step_agent (workflow ! j)) (step_task (workflow ! j))
               context_j m_j = (Inr (r j), m1)
          \<and> workflow_state env workflow m (Suc j) =
              (Inr (AList.update (step_key (Suc j) (step_agent (workflow ! j)))
                      (step_result (step_task (workflow ! j)) (r j)
                         (datetime_now env (trace m1))) results_j,
                    context_j @ [CHR 0x0A] @ step_agent (workflow ! j) @ '' completed: ''
                      @ py_format env (r j) @ [CHR 0x0A]),
               m1\<lparr>trace := trace m1 @ [ClockRead]\<rparr>))
     \<and> context_k =
         concat (map (\<lambda>j. [CHR 0x0A] @ step_agent (workflow ! j) @ '' completed: ''
                             @ py_format env (r j) @ [CHR 0x0A]) [0..<k])
     \<and> (\<exists>results_i context_i m_i.
            workflow_state env workflow m i = (Inr (results_i, context_i), m_i)
          \<and> crew_loop env 1 workflow [] [] m =
              crew_loop env (Suc i) (drop i workflow) results_i context_i m_i
          \<and> context_i =
              concat (map (\<lambda>j. [CHR 0x0A] @ step_agent (workflow ! j) @ '' completed: ''
                                  @ py_format env (r j) @ [CHR 0x0A]) [0..<i])
          \<and> context_k = context_i @
              concat (map (\<lambda>j. [CHR 0x0A] @ step_agent (workflow ! j) @ '' completed: ''
                                  @ py_format env (r j) @ [CHR 0x0A]) [i..<k]))"
proof -
  let ?outs = "step_outputs env workflow [] m"
  let ?r = "\<lambda>j. fst (?outs ! j)"
  let ?line = "\<lambda>j. [CHR 0x0A] @ step_agent (workflow ! j) @ '' completed: ''
                             @ py_format env (?r j) @ [CHR 0x0A]"
  have line: "?line = (\<lambda>j. context_line (step_agent (workflow ! j)) (py_format env (fst (?outs ! j))))"
    by (simp add: context_line_def)
  have i: "i \<le> length workflow" using assms(2,3) by simp
  note k = state_context [OF assms(1,3)]
  have ctx: "context_j = concat (map ?line [0..<j])"
    if "workflow_state env workflow m j = (Inr (results_j, context_j), m_j)" and "j \<le> k"
    for j results_j context_j m_j
  proof -
    from that(2) assms(3) have jl: "j \<le> length workflow" by simp
    note sj = state_context [OF that(1) jl]
    from context_of_grows [of j workflow ?outs 0 env] jl sj
    show ?thesis unfolding line by simp
  qed
  have each: "\<exists>results_j context_j m_j m1.
            workflow_state env workflow m j = (Inr (results_j, context_j), m_j)
          \<and> execute_agent_task env (step_agent (workflow ! j)) (step_task (workflow ! j))
               context_j m_j = (Inr (?r j), m1)
          \<and> workflow_state env workflow m (Suc j) =
              (Inr (AList.update (step_key (Suc j) (step_agent (workflow ! j)))
                      (step_result (step_task (workflow ! j)) (?r j)
                         (datetime_now env (trace m1))) results_j,
                    context_j @ ?line j),
               m1\<lparr>trace := trace m1 @ [ClockRead]\<rparr>)"
    if j: "j < k" for j
  proof -
    from j have jk: "j \<le> k" by simp
    from j assms(3) have jl: "j < length workflow" by simp
    from earlier_state_exists [OF assms(1) jk] obtain results_j context_j m_j where
      s: "workflow_state env workflow m j = (Inr (results_j, context_j), m_j)"
      by blast
    from j k(1) have o: "j < length ?outs" by simp
    from state_step [OF s jl o] obtain m1 where
      x: "execute_agent_task env (step_agent (workflow ! j)) (step_task (workflow ! j))
            context_j m_j = (Inr (?r j), m1)"
      and p: "result_preview (?r j) = Inr ()"
      by blast
    have t: "take (Suc j) workflow = take j workflow @ [workflow ! j]"
      using jl by (rule take_Suc_conv_app_nth)
    have c: "crew_loop env (Suc 0) (take j workflow) [] [] m = (Inr (results_j, context_j), m_j)"
      using s by (simp add: workflow_state_def)
    have "workflow_state env workflow m (Suc j) =
              (Inr (AList.update (step_key (Suc j) (step_agent (workflow ! j)))
                      (step_result (step_task (workflow ! j)) (?r j)
                         (datetime_now env (trace m1))) results_j,
                    context_j @ ?line j),
               m1\<lparr>trace := trace m1 @ [ClockRead]\<rparr>)"
      unfolding workflow_state_def t
      using jl by (simp add: crew_loop_append c x p context_line_def min_absorb2)
    with s x show ?thesis by blast
  qed
  from earlier_state_exists [OF assms(1,2)] obtain results_i context_i m_i where
    si: "workflow_state env workflow m i = (Inr (results_i, context_i), m_i)"
    by blast
  note ii = state_context [OF si i]
  have g: "context_k = context_i @ concat (map ?line [i..<k])"
    using context_of_grows [of k workflow ?outs i env] assms(2,3) k ii(2)
    unfolding line by simp
  have "\<exists>results_i context_i m_i.
            workflow_state env workflow m i = (Inr (results_i, context_i), m_i)
          \<and> crew_loop env 1 workflow [] [] m =
              crew_loop env (Suc i) (drop i workflow) results_i context_i m_i
          \<and> context_i = concat (map ?line [0..<i])
          \<and> context_k = context_i @ concat (map ?line [i..<k])"
    using si crew_loop_resume [OF si i] ctx [OF si assms(2)] g by blast
  moreover have "context_k = concat (map ?line [0..<k])"
    by (rule ctx [OF assms(1)]) simp
  moreover have "\<forall>j<k. \<exists>results_j context_j m_j m1.
            workflow_state env workflow m j = (Inr (results_j, context_j), m_j)
          \<and> execute_agent_task env (step_agent (workflow ! j)) (step_task (workflow ! j))
               context_j m_j = (Inr (?r j), m1)
          \<and> workflow_state env workflow m (Suc j) =
              (Inr (AList.update (step_key (Suc j) (step_agent (workflow ! j)))
                      (step_result (step_task (workflow ! j)) (?r j)
                         (datetime_now env (trace m1))) results_j,
                    context_j @ ?line j),
               m1\<lparr>trace := trace m1 @ [ClockRead]\<rparr>)"
    using each by blast
  ultimately show ?thesis
    by (intro exI [where x = ?r]) simp
qed

lemma sample_state_2:
  "fst (workflow_state
        (sample_env [text_reply ''Findings about X'', text_reply ''Analysis of X''])
        sample_workflow sample_crew 2) =
     Inr ([(''step_1_researcher'',
            JObject [(''task'', JString ''Research X''),
                     (''result'', JString ''Findings about X''),
                     (''timestamp'', JString ''2025-08-07T12:00:00'')]),
           (''step_2_analyst'',
            JObject [(''task'', JString ''Analyze X''),
                     (''result'', JString ''Analysis of X''),
                     (''timestamp'', JString ''2025-08-07T12:00:00'')])],
          [CHR 0x0A] @ ''researcher completed: Findings about X'' @ [CHR 0x0A]
            @ [CHR 0x0A] @ ''analyst completed: Analysis of X'' @ [CHR 0x0A])"
  by (simp add: workflow_state_def sample_workflow_def execute_agent_task_def
        make_llm_request_def Let_def try_except_def ok_response_def text_reply_def
        raise_for_status_def resolve_tool_call_def tool_call_body_def try_except_st_def
        startswith_def strip_def py_isspace_def append_history_def sample_crew_def
        add_agent_def empty_crew_def step_key_1 step_key_2 step_result_def
        context_line_def py_format_def)

lemma sample_first_task:
  "fst (execute_agent_task
        (sample_env [text_reply ''Findings about X'', text_reply ''Analysis of X''])
        ''researcher'' ''Research X'' [] sample_crew) = Inr (JString ''Findings about X'')"
  by (simp add: execute_agent_task_def
        make_llm_request_def Let_def try_except_def ok_response_def text_reply_def
        raise_for_status_def resolve_tool_call_def tool_call_body_def try_except_st_def
        startswith_def strip_def py_isspace_def append_history_def sample_crew_def
        add_agent_def empty_crew_def)

text \<open>
  The workflow of two steps: the state after both steps, and from the theorem the context
  after the first step, from which the loop goes on.
\<close>

theorem context_accumulates_witness:
  "fst (workflow_state
        (sample_env [text_reply ''Findings about X'', text_reply ''Analysis of X''])
        sample_workflow sample_crew 2) =
     Inr ([(''step_1_researcher'',
            JObject [(''task'', JString ''Research X''),
                     (''result'', JString ''Findings about X''),
                     (''timestamp'', JString ''2025-08-07T12:00:00'')]),
           (''step_2_analyst'',
            JObject [(''task'', JString ''Analyze X''),
                     (''result'', JString ''Analysis of X''),
                     (''timestamp'', JString ''2025-08-07T12:00:00'')])],
          [CHR 0x0A] @ ''researcher completed: Findings about X'' @ [CHR 0x0A]
            @ [CHR 0x0A] @ ''analyst completed: Analysis of X'' @ [CHR 0x0A])
   \<and> (1 :: nat) \<le> 2 \<and> 2 \<le> length sample_workflow
   \<and> (\<exists>results m'. workflow_state
         (sample_env [text_reply ''Findings about X'', text_reply ''Analysis of X''])
         sample_workflow sample_crew 1 =
        (Inr (results, [CHR 0x0A] @ ''researcher completed: Findings about X'' @ [CHR 0x0A]), m')
       \<and> crew_loop
            (sample_env [text_reply ''Findings about X'', text_reply ''Analysis of X''])
            1 sample_workflow [] [] sample_crew =
          crew_loop
            (sample_env [text_reply ''Findings about X'', text_reply ''Analysis of X''])
            2 (drop 1 sample_workflow) results
            ([CHR 0x0A] @ ''researcher completed: Findings about X'' @ [CHR 0x0A]) m')"
proof -
  let ?E = "sample_env [text_reply ''Findings about X'', text_reply ''Analysis of X'']"
  let ?results = "[(''step_1_researcher'',
            JObject [(''task'', JString ''Research X''),
                     (''result'', JString ''Findings about X''),
                     (''timestamp'', JString ''2025-08-07T12:00:00'')]),
           (''step_2_analyst'',
            JObject [(''task'', JString ''Analyze X''),
                     (''result'', JString ''Analysis of X''),
                     (''timestamp'', JString ''2025-08-07T12:00:00'')])]"
  let ?ctx = "[CHR 0x0A] @ ''researcher completed: Findings about X'' @ [CHR 0x0A]
            @ [CHR 0x0A] @ ''analyst completed: Analysis of X'' @ [CHR 0x0A]"
  have h1: "workflow_state ?E sample_workflow sample_crew 2 =
      (Inr (?results, ?ctx), snd (workflow_state ?E sample_workflow sample_crew 2))"
    using sample_state_2 by (cases "workflow_state ?E sample_workflow sample_crew 2") simp
  have l: "(1 :: nat) \<le> 2" "2 \<le> length sample_workflow" by (simp_all add: sample_workflow_def)
  from context_accumulates [OF h1 l]
  obtain r results_i context_i m_i results_0 context_0 m_0 m1 where
    s0: "workflow_state ?E sample_workflow sample_crew 0 = (Inr (results_0, context_0), m_0)"
    and x0: "execute_agent_task ?E (step_agent (sample_workflow ! 0))
        (step_task (sample_workflow ! 0)) context_0 m_0 = (Inr (r 0), m1)"
    and si: "workflow_state ?E sample_workflow sample_crew 1 = (Inr (results_i, context_i), m_i)"
    and re: "crew_loop ?E 1 sample_workflow [] [] sample_crew =
        crew_loop ?E (Suc 1) (drop 1 sample_workflow) results_i context_i m_i"
    and ci: "context_i = concat (map (\<lambda>j. [CHR 0x0A] @ step_agent (sample_workflow ! j)
        @ '' completed: '' @ py_format ?E (r j) @ [CHR 0x0A]) [0..<1])"
    by (auto simp: numeral_2_eq_2)
  from s0 have "context_0 = []" "m_0 = sample_crew" by (simp_all add: workflow_state_def)
  with x0 sample_first_task have r0: "r 0 = JString ''Findings about X''"
    by (simp add: sample_workflow_def)
  have "context_i = [CHR 0x0A] @ ''researcher completed: Findings about X'' @ [CHR 0x0A]"
    unfolding ci by (simp add: r0 sample_workflow_def py_format_def)
  with si re sample_state_2 l show ?thesis by (auto simp: numeral_2_eq_2)
qed

subsection \<open>Histories of the role agents\<close>

lemma execute_agent_task_history:
  assumes "execute_agent_task env agent_name task context m = (r, m')"
  shows "crew m' = crew m
     \<and> (\<forall>b. \<exists>added. conversation_history' (heap m' b) = conversation_history' (heap m b) @ added
           \<and> (\<not> isl r \<longrightarrow>
                length added = (if agents (crew m) agent_name = Some b then 2 else 0)))"
proof (cases "agents (crew m) agent_name")
  case None
  with assms show ?thesis by (auto simp: execute_agent_task_not_found)
next
  case (Some a)
  from execute_agent_task_cases [OF Some, of env "task" "context"]
  show ?thesis
  proof
    assume "\<exists>final m2. same_but_trace m m2 \<and>
           execute_agent_task env agent_name task context m =
             (Inr final, append_history a
                [message ''user'' (task_prompt_of task context),
                 message_of ''assistant'' final] m2)"
    then obtain final m2 where s: "same_but_trace m m2"
      and e: "execute_agent_task env agent_name task context m =
             (Inr final, append_history a
                [message ''user'' (task_prompt_of task context),
                 message_of ''assistant'' final] m2)"
      by blast
    have h: "heap m2 = heap m" and cr: "crew m2 = crew m"
      using s by (simp_all add: same_but_trace_def)
    from e assms have m': "m' = append_history a
                [message ''user'' (task_prompt_of task context),
                 message_of ''assistant'' final] m2" and r: "r = Inr final"
      by simp_all
    show ?thesis
      unfolding m' r using Some h cr by (simp add: append_history_heap)
  next
    assume "\<exists>e m2. same_but_trace m m2 \<and>
           execute_agent_task env agent_name task context m = (Inl e, m2)"
    then obtain e m2 where s: "same_but_trace m m2"
      and x: "execute_agent_task env agent_name task context m = (Inl e, m2)"
      by blast
    from x assms have "m' = m2" "r = Inl e" by simp_all
    with s show ?thesis by (simp add: same_but_trace_def)
  qed
qed

lemma crew_loop_history:
  "crew_loop env i steps results context m = (r, m') \<Longrightarrow>
     \<exists>added. conversation_history' (heap m' b) = conversation_history' (heap m b) @ added
       \<and> (\<not> isl r \<longrightarrow>
            length added = 2 * length (filter (\<lambda>s. agents (crew m) (step_agent s) = Some b) steps))"
proof (induction steps arbitrary: i results "context" m)
  case Nil
  then show ?case by auto
next
  case (Cons s steps)
  obtain x m1 where e: "execute_agent_task env (step_agent s) (step_task s) context m = (x, m1)"
    by (cases "execute_agent_task env (step_agent s) (step_task s) context m")
  from execute_agent_task_history [OF e] obtain added1 where
    cm: "crew m1 = crew m"
    and a1: "conversation_history' (heap m1 b) = conversation_history' (heap m b) @ added1"
    and n1: "\<not> isl x \<longrightarrow> length added1 = (if agents (crew m) (step_agent s) = Some b then 2 else 0)"
    by blast
  show ?case
  proof (cases x)
    case (Inl err)
    with e Cons.prems have "r = Inl err" "m' = m1" by simp_all
    with a1 show ?thesis by auto
  next
    case (Inr result)
    show ?thesis
    proof (cases "result_preview result")
      case (Inl err)
      with e Inr Cons.prems have "r = Inl err" "m' = m1\<lparr>trace := trace m1 @ [ClockRead]\<rparr>"
        by simp_all
      with a1 show ?thesis by auto
    next
      case ok: (Inr u)
      let ?m1 = "m1\<lparr>trace := trace m1 @ [ClockRead]\<rparr>"
      from Cons.prems e Inr ok have
        "crew_loop env (Suc i) steps
           (AList.update (step_key i (step_agent s))
              (step_result (step_task s) result (datetime_now env (trace m1))) results)
           (context @ context_line (step_agent s) (py_format env result)) ?m1 = (r, m')"
        by simp
      from Cons.IH [OF this] obtain added2 where
        a2: "conversation_history' (heap m' b) = conversation_history' (heap ?m1 b) @ added2"
        and n2: "\<not> isl r \<longrightarrow> length added2 =
            2 * length (filter (\<lambda>s. agents (crew ?m1) (step_agent s) = Some b) steps)"
        by blast
      have "conversation_history' (heap m' b) = conversation_history' (heap m b) @ (added1 @ added2)"
        using a1 a2 by simp
      moreover have "\<not> isl r \<longrightarrow> length (added1 @ added2) =
          2 * length (filter (\<lambda>s. agents (crew m) (step_agent s) = Some b) (s # steps))"
        using n1 n2 cm Inr by simp
      ultimately show ?thesis by blast
    qed
  qed
qed

lemma execute_crew_workflow_history:
  assumes "execute_crew_workflow env workflow m = (r, m')"
  shows "\<exists>added. conversation_history' (heap m' b) = conversation_history' (heap m b) @ added
       \<and> (\<not> isl r \<longrightarrow>
            length added = 2 * length (filter (\<lambda>s. agents (crew m) (step_agent s) = Some b) workflow))"
proof -
  obtain x m1 where l: "crew_loop env 1 workflow [] [] m = (x, m1)"
    by (cases "crew_loop env 1 workflow [] [] m")
  note h = crew_loop_history [OF l, of b]
  show ?thesis
  proof (cases x)
    case (Inl e)
    with l assms have "r = Inl e" "m' = m1" by (simp_all add: execute_crew_workflow_def)
    with h show ?thesis by auto
  next
    case (Inr out)
    obtain results ctx where out: "out = (results, ctx)" by (cases out)
    from l Inr out assms have "\<not> isl r" "heap m' = heap m1"
      by (auto simp: execute_crew_workflow_def)
    with h Inr show ?thesis by auto
  qed
qed

text \<open>
  Claim C9, as the code has it. When \<^verbatim>\<open>execute_agent_task\<close> returns for a registered
  agent, the history of the agent object is the one from before followed by two entries:
  one with role \<^verbatim>\<open>user\<close> whose content is the task prompt (the task after
  \<^verbatim>\<open>Task: \<close>, followed by the context under its heading when there is one), and one
  with role \<^verbatim>\<open>assistant\<close> whose content is the final result; every other object is
  unchanged. Whatever the outcome of a whole workflow, the history of every agent object
  afterwards is the one from before followed by further entries, so nothing is ever removed
  or trimmed; when the workflow returns, these are two entries for each step that names the
  object.
\<close>

theorem history_grows_by_two:
  "(\<forall>final m'.
       agents (crew m) agent_name = Some a \<longrightarrow>
       execute_agent_task env agent_name task context m = (Inr final, m') \<longrightarrow>
         conversation_history' (heap m' a) =
           conversation_history' (heap m a)
             @ [JObject [(''role'', JString ''user''),
                         (''content'',
                          JString (''Task: '' @ task
                            @ (if context \<noteq> []
                               then [CHR 0x0A, CHR 0x0A] @ ''Context from previous agents: ''
                                      @ context
                               else [])))],
                JObject [(''role'', JString ''assistant''), (''content'', final)]]
       \<and> (\<forall>b. b \<noteq> a \<longrightarrow> heap m' b = heap m b))
   \<and> (\<forall>r m' b. execute_crew_workflow env workflow m = (r, m') \<longrightarrow>
         (\<exists>added.
             conversation_history' (heap m' b) = conversation_history' (heap m b) @ added
           \<and> (\<not> isl r \<longrightarrow> length added =
                2 * length (filter (\<lambda>s. agents (crew m) (step_agent s) = Some b) workflow))))"
proof -
  have one: "conversation_history' (heap m' a) =
           conversation_history' (heap m a)
             @ [JObject [(''role'', JString ''user''),
                         (''content'',
                          JString (''Task: '' @ task
                            @ (if context \<noteq> []
                               then [CHR 0x0A, CHR 0x0A] @ ''Context from previous agents: ''
                                      @ context
                               else [])))],
                JObject [(''role'', JString ''assistant''), (''content'', final)]]
       \<and> (\<forall>b. b \<noteq> a \<longrightarrow> heap m' b = heap m b)"
    if reg: "agents (crew m) agent_name = Some a"
      and ret: "execute_agent_task env agent_name task context m = (Inr final, m')"
    for final m'
  proof -
    from execute_agent_task_cases [OF reg, of env "task" "context"] ret
    obtain m2 where s: "same_but_trace m m2"
      and m': "m' = append_history a
            [message ''user'' (task_prompt_of task context), message_of ''assistant'' final] m2"
      by auto
    have h: "heap m2 = heap m" using s by (simp add: same_but_trace_def)
    show ?thesis
      unfolding m' using h
      by (simp add: append_history_heap message_def message_of_def task_prompt_of_def)
  qed
  have two: "\<exists>added.
             conversation_history' (heap m' b) = conversation_history' (heap m b) @ added
           \<and> (\<not> isl r \<longrightarrow> length added =
                2 * length (filter (\<lambda>s. agents (crew m) (step_agent s) = Some b) workflow))"
    if "execute_crew_workflow env workflow m = (r, m')" for r m' b
    using that by (rule execute_crew_workflow_history)
  from one two show ?thesis by blast
qed

lemma execute_crew_workflow_plain:
  assumes "replies_plain env"
  shows "\<exists>results m'. execute_crew_workflow env workflow m = (Inr results, m')"
proof -
  from crew_loop_plain [OF assms, of 1 workflow "[]" "[]" m]
  obtain results ctx m1 where "crew_loop env 1 workflow [] [] m = (Inr (results, ctx), m1)"
    by blast
  then show ?thesis by (simp add: execute_crew_workflow_def)
qed

lemma sample_histories [simp]:
  "conversation_history' researcher = []"
  "conversation_history' analyst = []"
  by (simp_all add: researcher_def analyst_def CrewAgent_init_def)

text \<open>
  One task of the researcher with a context; and a workflow of six steps for the
  researcher, after which its history has twelve entries and that of the analyst none.
\<close>

theorem history_grows_by_two_witness:
  "agents (crew sample_crew) ''researcher'' = Some 0
   \<and> fst (execute_agent_task (sample_env [text_reply ''Findings about X''])
        ''researcher'' ''Research X'' ''earlier'' sample_crew) = Inr (JString ''Findings about X'')
   \<and> conversation_history' (heap (snd (execute_agent_task
        (sample_env [text_reply ''Findings about X''])
        ''researcher'' ''Research X'' ''earlier'' sample_crew)) 0) =
       [JObject [(''role'', JString ''user''),
                 (''content'', JString (''Task: Research X'' @ [CHR 0x0A, CHR 0x0A]
                     @ ''Context from previous agents: earlier''))],
        JObject [(''role'', JString ''assistant''),
                 (''content'', JString ''Findings about X'')]]
   \<and> heap (snd (execute_agent_task (sample_env [text_reply ''Findings about X''])
        ''researcher'' ''Research X'' ''earlier'' sample_crew)) 1 = analyst
   \<and> \<not> isl (fst (execute_crew_workflow (sample_env [])
          (replicate 6 \<lparr>step_agent = ''researcher'', step_task = ''Research X''\<rparr>) sample_crew))
   \<and> length (conversation_history' (heap (snd (execute_crew_workflow (sample_env [])
          (replicate 6 \<lparr>step_agent = ''researcher'', step_task = ''Research X''\<rparr>) sample_crew))
          0)) = 12
   \<and> length (conversation_history' (heap (snd (execute_crew_workflow (sample_env [])
          (replicate 6 \<lparr>step_agent = ''researcher'', step_task = ''Research X''\<rparr>) sample_crew))
          1)) = 0"
proof -
  let ?E = "sample_env [text_reply ''Findings about X'']"
  let ?msgs = "task_messages (heap sample_crew 0) ''Research X'' ''earlier''"
  let ?m1 = "sample_crew\<lparr>trace := trace sample_crew @ [ChatPost (llm_url sample_crew)
           (llm_payload sample_crew ?msgs)]\<rparr>"
  let ?w = "replicate 6 \<lparr>step_agent = ''researcher'', step_task = ''Research X''\<rparr>"
  have h1: "agents (crew sample_crew) ''researcher'' = Some 0" by simp
  have h2: "make_llm_request ?E ?msgs sample_crew = (Inr (JString ''Findings about X''), ?m1)"
    by (rule sample_llm_ok) (simp add: text_reply_def)
  have r: "resolve_tool_call ?E ?msgs (JString ''Findings about X'') ?m1 =
      (Inr (JString ''Findings about X''), ?m1)"
    by (rule resolve_final) (simp add: startswith_def strip_def py_isspace_def)
  let ?m' = "append_history 0
        [message ''user'' (task_prompt_of ''Research X'' ''earlier''),
         message_of ''assistant'' (JString ''Findings about X'')] ?m1"
  have e: "execute_agent_task ?E ''researcher'' ''Research X'' ''earlier'' sample_crew =
      (Inr (JString ''Findings about X''), ?m')"
    by (rule execute_agent_task_registered [OF h1 h2 r])
  note t = history_grows_by_two [of sample_crew "''researcher''" 0 ?E "''Research X''"
      "''earlier''"]
  from t h1 e have one:
    "conversation_history' (heap ?m' 0) =
       [JObject [(''role'', JString ''user''),
                 (''content'', JString (''Task: Research X'' @ [CHR 0x0A, CHR 0x0A]
                     @ ''Context from previous agents: earlier''))],
        JObject [(''role'', JString ''assistant''),
                 (''content'', JString ''Findings about X'')]]"
    and other: "heap ?m' 1 = heap sample_crew 1"
    by auto
  have p: "replies_plain (sample_env [])" by (rule sample_replies_plain) simp
  from execute_crew_workflow_plain [OF p, of ?w sample_crew] obtain results m'' where
    x: "execute_crew_workflow (sample_env []) ?w sample_crew = (Inr results, m'')"
    by blast
  note u = history_grows_by_two [where m = sample_crew and env = "sample_env []"
      and workflow = ?w]
  from u x obtain added0 added1 where
    "conversation_history' (heap m'' 0) = conversation_history' (heap sample_crew 0) @ added0"
    "length added0 =
       2 * length (filter (\<lambda>s. agents (crew sample_crew) (step_agent s) = Some 0) ?w)"
    "conversation_history' (heap m'' 1) = conversation_history' (heap sample_crew 1) @ added1"
    "length added1 =
       2 * length (filter (\<lambda>s. agents (crew sample_crew) (step_agent s) = Some 1) ?w)"
    by (metis sum.disc(2))
  then have l0: "length (conversation_history' (heap m'' 0)) = 12"
    and l1: "length (conversation_history' (heap m'' 1)) = 0"
    by simp_all
  show ?thesis
    unfolding e x using h1 one other l0 l1 by simp
qed

text \<open>
  Claim C9 as stated speaks of every executed step with a registered agent. In this example
  the researcher is registered and the step is executed: the completion request is sent.
  The endpoint answers with a content that is \<^verbatim>\<open>null\<close>, on which
  \<^verbatim>\<open>response.strip()\<close> raises \<^verbatim>\<open>AttributeError\<close> before the two
  \<^verbatim>\<open>append\<close> calls are reached: the history of the researcher is as empty after the
  step as it was before.
\<close>

theorem aborted_step_appends_nothing_counterexample:
  "agents (crew sample_crew) ''researcher'' = Some 0
   \<and> fst (execute_agent_task (sample_env [ok_response (Content JNull)])
        ''researcher'' ''Research X'' [] sample_crew) =
       Inl (Raise AttributeError
              ([CHR 0x27] @ ''NoneType'' @ [CHR 0x27] @ '' object has no attribute ''
                 @ [CHR 0x27] @ ''strip'' @ [CHR 0x27]))
   \<and> trace (snd (execute_agent_task (sample_env [ok_response (Content JNull)])
        ''researcher'' ''Research X'' [] sample_crew)) =
       [ChatPost (llm_url sample_crew)
          (llm_payload sample_crew (task_messages (heap sample_crew 0) ''Research X'' []))]
   \<and> conversation_history' (heap sample_crew 0) = []
   \<and> conversation_history' (heap (snd (execute_agent_task
        (sample_env [ok_response (Content JNull)])
        ''researcher'' ''Research X'' [] sample_crew)) 0) = []"
proof -
  let ?E0 = "sample_env [ok_response (Content JNull)]"
  let ?msgs = "task_messages (heap sample_crew 0) ''Research X'' []"
  let ?m1 = "sample_crew\<lparr>trace := trace sample_crew @ [ChatPost (llm_url sample_crew)
           (llm_payload sample_crew ?msgs)]\<rparr>"
  have h1: "agents (crew sample_crew) ''researcher'' = Some 0" by simp
  have a2: "make_llm_request ?E0 ?msgs sample_crew = (Inr JNull, ?m1)"
    by (rule sample_llm_ok) simp
  have a: "execute_agent_task ?E0 ''researcher'' ''Research X'' [] sample_crew =
      (Inl (no_attribute JNull ''strip''), ?m1)"
    by (rule execute_agent_task_not_text [OF h1 a2]) simp
  show ?thesis
    unfolding a using h1 by (simp add: no_attribute_def)
qed

end
